theory Spec2Isabelle
  imports Complex_Main
begin

section \<open>Python values used by the data layer\<close>

text \<open>
  Texts are modelled as HOL strings (lists of 8-bit characters), read as ASCII text.
  \<open>lower\<close> is \<^verbatim>\<open>str.lower()\<close> on such texts: the letters A to Z are mapped to a to
  z and every other character is kept, so the case mappings of Unicode outside ASCII are
  not modelled. \<open>str_in kw t\<close> is Python's \<^verbatim>\<open>kw in t\<close> on strings (contiguous
  substring), \<open>startswith t p\<close> is \<^verbatim>\<open>t.startswith(p)\<close>.
\<close>

definition upper_letters :: string where
  "upper_letters = ''ABCDEFGHIJKLMNOPQRSTUVWXYZ''"

definition lower_letters :: string where
  "lower_letters = ''abcdefghijklmnopqrstuvwxyz''"

definition lower_char :: "char \<Rightarrow> char" where
  "lower_char c = (case map_of (zip upper_letters lower_letters) c of Some l \<Rightarrow> l | None \<Rightarrow> c)"

definition lower :: "string \<Rightarrow> string" where
  "lower s = map lower_char s"

fun startswith :: "string \<Rightarrow> string \<Rightarrow> bool" where
  "startswith s [] = True"
| "startswith [] (p # ps) = False"
| "startswith (c # cs) (p # ps) = (c = p \<and> startswith cs ps)"

fun str_in :: "string \<Rightarrow> string \<Rightarrow> bool" where
  "str_in kw [] = (kw = [])"
| "str_in kw (c # cs) = (startswith (c # cs) kw \<or> str_in kw cs)"

text \<open>
  \<^verbatim>\<open>x or d\<close> for an optional string \<open>x\<close>: \<^verbatim>\<open>None\<close> and the empty string are
  falsy. \<open>or_opt\<close> is the same operator when the right operand may itself be
  \<^verbatim>\<open>None\<close>.
\<close>

fun truthy :: "string option \<Rightarrow> bool" where
  "truthy None = False"
| "truthy (Some s) = (s \<noteq> [])"

fun or_str :: "string option \<Rightarrow> string \<Rightarrow> string" where
  "or_str None d = d"
| "or_str (Some s) d = (if s = [] then d else s)"

fun or_opt :: "string option \<Rightarrow> string option \<Rightarrow> string option" where
  "or_opt None d = d"
| "or_opt (Some s) d = (if s = [] then d else Some s)"

text \<open>
  \<^verbatim>\<open>str.strip()\<close>: leading and trailing whitespace removed. On 8-bit characters
  the whitespace characters of \<^verbatim>\<open>str.isspace\<close> are the codes 9 to 13, 28 to 32,
  133 and 160.
\<close>

definition is_space :: "char \<Rightarrow> bool" where
  "is_space c = ((of_char c :: nat) \<in> set [9, 10, 11, 12, 13, 28, 29, 30, 31, 32, 133, 160])"

definition strip :: "string \<Rightarrow> string" where
  "strip s = rev (dropWhile is_space (rev (dropWhile is_space s)))"

text \<open>
  JSON documents as \<^verbatim>\<open>json.loads\<close> returns them. A number is an \<^verbatim>\<open>int\<close> or a
  \<^verbatim>\<open>float\<close>; a float is finite, infinite or not a number.
\<close>

datatype pyfloat = Finite real | PosInf | NegInf | NaN

datatype json =
    JNull
  | JBool bool
  | JInt int
  | JFloat pyfloat
  | JStr string
  | JArr "json list"
  | JObj "(string \<times> json) list"

section \<open>The event record\<close>

datatype gemini =
    ErrorPayload string
  | Analysis "(string \<times> json) list"

record event =
  timestamp :: string
  headline :: string
  location :: string
  latitude :: real
  longitude :: real
  risk_score :: int
  category :: json
  commodity :: string
  reasoning :: json
  article_snippet :: string
  source_url :: string
  source :: string
  gemini_analysis :: "gemini option"

section \<open>config.py\<close>

definition NEWSAPI_RELEVANCE_KEYWORDS :: "string list" where
  "NEWSAPI_RELEVANCE_KEYWORDS =
    [''supply chain'', ''logistics'', ''shipping'', ''freight'', ''cargo'', ''port'', ''shortage'',
     ''disruption'', ''strike'', ''factory'', ''manufacturing'', ''inventory'', ''shipment'',
     ''supplier'', ''procurement'', ''warehouse'', ''distribution'', ''export'', ''import'',
     ''container'', ''rail'', ''trucking'', ''delivery'', ''outage'', ''closure'', ''backlog'']"

definition NEWSAPI_MIN_RELEVANCE :: int where
  "NEWSAPI_MIN_RELEVANCE = 1"

definition MAX_RSS_ENTRIES_PER_FEED :: nat where
  "MAX_RSS_ENTRIES_PER_FEED = 15"

section \<open>data.py: heuristics\<close>

text \<open>\<^verbatim>\<open>_category_from_title(title)\<close>: the category names are Python strings.\<close>

definition category_from_title :: "string option \<Rightarrow> string" where
  "category_from_title title =
    (let t = lower (or_str title '''') in
     if str_in ''cement'' t \<or> str_in ''steel'' t \<or> str_in ''lumber'' t \<or> str_in ''infrastructure'' t
       then ''Construction''
     else if str_in ''strike'' t \<or> str_in ''port'' t \<or> str_in ''congestion'' t \<or> str_in ''canal'' t
              \<or> str_in ''blockade'' t
       then ''Disruption''
     else if str_in ''shortage'' t
       then ''Shortage''
     else if str_in ''factory'' t \<or> str_in ''fab'' t \<or> str_in ''assembly'' t
       then ''Manufacturing''
     else if str_in ''sanction'' t \<or> str_in ''trade'' t \<or> str_in ''export'' t
       then ''Geopolitical''
     else ''General'')"

text \<open>\<^verbatim>\<open>_supply_chain_relevance(text)\<close>: one is summed for every keyword of the
  configured list whose lowercased form occurs in the lowercased text.\<close>

definition supply_chain_relevance :: "string option \<Rightarrow> int" where
  "supply_chain_relevance text =
    (if \<not> truthy text then 0
     else let t = lower (the text) in
       sum_list (map (\<lambda>kw. 1) (filter (\<lambda>kw. str_in (lower kw) t) NEWSAPI_RELEVANCE_KEYWORDS)))"

text \<open>\<^verbatim>\<open>_heuristic_risk_from_text(title, description)\<close>.\<close>

definition heuristic_risk_from_text :: "string option \<Rightarrow> string option \<Rightarrow> int" where
  "heuristic_risk_from_text title description =
    (let t = lower (or_str title '''' @ '' '' @ or_str description '''') in
     if list_ex (\<lambda>w. str_in w t)
          [''strike'', ''shortage'', ''blockade'', ''outage'', ''closure'', ''crisis'']
       then min 5 4
     else if list_ex (\<lambda>w. str_in w t) [''disruption'', ''delay'', ''backlog'', ''congestion'']
       then 3
     else if list_ex (\<lambda>w. str_in w t)
          [''supply chain'', ''logistics'', ''shipping'', ''freight'', ''port'', ''cargo'']
       then 2
     else 1)"

text \<open>
  \<^verbatim>\<open>_event_row(headline, snippet, source, source_url, timestamp, risk_score=0)\<close>.
  The two placeholder coordinates are drawn with \<^verbatim>\<open>random.uniform\<close>; the pair drawn
  for the row is the argument \<open>coords\<close>. Callers that leave \<^verbatim>\<open>risk_score\<close> out
  pass the default 0.
\<close>

definition event_row ::
  "real \<times> real \<Rightarrow> string option \<Rightarrow> string option \<Rightarrow> string option \<Rightarrow> string option
     \<Rightarrow> string \<Rightarrow> int \<Rightarrow> event" where
  "event_row coords headline' snippet source' source_url' timestamp' risk_score' =
    \<lparr> timestamp = timestamp',
      headline = take 500 (strip (or_str headline' ''Unknown Event'')),
      location = ''Global Signal (Live)'',
      latitude = fst coords,
      longitude = snd coords,
      risk_score = risk_score',
      category = JStr (category_from_title headline'),
      commodity = ''Mixed'',
      reasoning = JStr '''',
      article_snippet = take 200 (or_str (or_opt snippet headline') ''''),
      source_url = or_str source_url' ''#'',
      source = or_str source' ''Live'',
      gemini_analysis = None \<rparr>"

section \<open>data.py: the network and its failures\<close>

text \<open>
  A field of a JSON article is absent, \<^verbatim>\<open>null\<close> or a string. \<open>jget\<close> is
  \<^verbatim>\<open>art.get(k)\<close>, \<open>jget_default\<close> is \<^verbatim>\<open>art.get(k, d)\<close>, which returns the default
  only when the key is absent.
\<close>

datatype jfield = Absent | Null | Str string

fun jget :: "jfield \<Rightarrow> string option" where
  "jget Absent = None"
| "jget Null = None"
| "jget (Str s) = Some s"

fun jget_default :: "jfield \<Rightarrow> string \<Rightarrow> string option" where
  "jget_default Absent d = Some d"
| "jget_default Null d = None"
| "jget_default (Str s) d = Some s"

text \<open>
  Exceptions: \<^verbatim>\<open>requests.exceptions.HTTPError\<close> with the status code of its response
  (if it has one), and every other \<^verbatim>\<open>Exception\<close> with its message.
\<close>

datatype exn = HTTPError "nat option" | Exception string

text \<open>
  The outcome of \<^verbatim>\<open>requests.get(url, timeout=...)\<close>: the call raises (connection
  error, timeout), or a response arrives with a status code and a body. Reading the body
  with \<^verbatim>\<open>response.json()\<close> and \<^verbatim>\<open>data.get("articles")\<close> raises (\<open>BadPayload\<close>: not
  JSON, or not an object), or gives the article list, \<open>None\<close> when the key is absent or
  \<^verbatim>\<open>null\<close>.
\<close>

datatype 'a payload = BadPayload string | Articles "'a list option"

datatype 'a response = Failed string | Reply nat "'a payload"

text \<open>Messages written to the sidebar: the four warnings of the primary fetcher and the
  two provenance notes of the orchestrator.\<close>

datatype notice =
    RateLimitLong
  | RateLimitShort
  | GdeltError exn
  | GdeltUnreachable exn
  | UsingNewsAPI
  | UsingRSS

text \<open>Decimal rendering of integers in f-strings, and the \<^verbatim>\<open>:02d\<close> format.\<close>

definition digit_char :: "nat \<Rightarrow> char" where
  "digit_char n = ''0123456789'' ! n"

function show_nat :: "nat \<Rightarrow> string" where
  "show_nat n = (if n < 10 then [digit_char n] else show_nat (n div 10) @ [digit_char (n mod 10)])"
  by pat_completeness auto
termination
  by (relation "measure id") auto

declare show_nat.simps [simp del]

definition show_int :: "int \<Rightarrow> string" where
  "show_int i = (if i < 0 then CHR ''-'' # show_nat (nat (- i)) else show_nat (nat i))"

definition pad2 :: "nat \<Rightarrow> string" where
  "pad2 n = (if n < 10 then CHR ''0'' # show_nat n else show_nat n)"

section \<open>data.py: the primary fetcher (GDELT)\<close>

definition GDELT_URL :: string where
  "GDELT_URL = ''https://api.gdeltproject.org/api/v2/doc/doc''"

definition GDELT_KEYWORDS :: string where
  "GDELT_KEYWORDS =
     ''port strike OR factory OR shortage OR cement OR steel OR infrastructure OR supply chain''"

definition MAX_GDELT_RECORDS :: int where
  "MAX_GDELT_RECORDS = 25"

record gdelt_article =
  g_title :: jfield
  g_snippet :: jfield
  g_domain :: jfield
  g_url :: jfield
  g_seendate :: jfield

text \<open>The timestamp expression of the loop body, on the string \<^verbatim>\<open>seendate\<close>.\<close>

definition gdelt_ts :: "string \<Rightarrow> string" where
  "gdelt_ts seendate =
     take 8 seendate @ '' '' @
     (if length seendate \<ge> 12
      then take 2 (drop 8 seendate) @ '':'' @ take 2 (drop 10 seendate)
      else ''00:00'')"

text \<open>
  One iteration of the loop over the articles. \<open>now_ymd\<close> is
  \<^verbatim>\<open>datetime.now().strftime("%Y%m%d")\<close>. A \<^verbatim>\<open>null\<close> \<^verbatim>\<open>seendate\<close> makes the slice
  raise \<^verbatim>\<open>TypeError\<close>.
\<close>

definition gdelt_row :: "string \<Rightarrow> real \<times> real \<Rightarrow> gdelt_article \<Rightarrow> exn + event" where
  "gdelt_row now_ymd coords art =
    (let title = strip (or_str (jget (g_title art)) ''Unknown Event'');
         snippet = take 200 (or_str (jget (g_snippet art)) title);
         domain = jget_default (g_domain art) ''GDELT'';
         url_link = jget_default (g_url art) ''#''
     in case jget_default (g_seendate art) now_ymd of
          None \<Rightarrow> Inl (Exception ''TypeError'')
        | Some seendate \<Rightarrow>
            Inr (event_row coords (Some title) (Some snippet) domain url_link (gdelt_ts seendate) 0))"

text \<open>The loop: \<open>draw i\<close> is the pair of coordinates drawn for the article at
  position \<open>i\<close>. An exception leaves the loop, and the rows built so far are lost.\<close>

fun gdelt_rows :: "string \<Rightarrow> (nat \<Rightarrow> real \<times> real) \<Rightarrow> nat \<Rightarrow> gdelt_article list \<Rightarrow> exn + event list" where
  "gdelt_rows now_ymd draw i [] = Inr []"
| "gdelt_rows now_ymd draw i (art # arts) =
    (case gdelt_row now_ymd (draw i) art of
       Inl e \<Rightarrow> Inl e
     | Inr row \<Rightarrow>
         (case gdelt_rows now_ymd draw (Suc i) arts of
            Inl e \<Rightarrow> Inl e
          | Inr rows \<Rightarrow> Inr (row # rows)))"

definition gdelt_request_url :: "string \<Rightarrow> int \<Rightarrow> string" where
  "gdelt_request_url query max_records =
     GDELT_URL @ ''?query='' @ query @ ''&mode=artlist&format=json&maxrecords=''
       @ show_int max_records @ ''&timespan=48h''"

text \<open>The body of the \<^verbatim>\<open>try\<close> block: the sidebar messages and the rows it returns,
  or the exception it raises. \<open>http_get\<close> is \<^verbatim>\<open>requests.get\<close>.\<close>

definition gdelt_try ::
  "(string \<Rightarrow> gdelt_article response) \<Rightarrow> string \<Rightarrow> (nat \<Rightarrow> real \<times> real) \<Rightarrow> string \<Rightarrow> int
     \<Rightarrow> exn + (notice list \<times> event list)" where
  "gdelt_try http_get now_ymd draw query max_records =
    (case http_get (gdelt_request_url query max_records) of
       Failed m \<Rightarrow> Inl (Exception m)
     | Reply status body \<Rightarrow>
         if status = 429 then Inr ([RateLimitLong], [])
         else if 400 \<le> status \<and> status < 600 then Inl (HTTPError (Some status))
         else (case body of
                 BadPayload m \<Rightarrow> Inl (Exception m)
               | Articles None \<Rightarrow> Inr ([], [])
               | Articles (Some articles) \<Rightarrow>
                   if articles = [] then Inr ([], [])
                   else (case gdelt_rows now_ymd draw 0 articles of
                           Inl e \<Rightarrow> Inl e
                         | Inr rows \<Rightarrow> Inr ([], rows))))"

text \<open>\<^verbatim>\<open>fetch_gdelt_events(query, max_records)\<close> with its two handlers.\<close>

definition fetch_gdelt_events ::
  "(string \<Rightarrow> gdelt_article response) \<Rightarrow> string \<Rightarrow> (nat \<Rightarrow> real \<times> real) \<Rightarrow> string \<Rightarrow> int
     \<Rightarrow> notice list \<times> event list" where
  "fetch_gdelt_events http_get now_ymd draw query max_records =
    (case gdelt_try http_get now_ymd draw query max_records of
       Inr out \<Rightarrow> out
     | Inl (HTTPError st) \<Rightarrow>
         (if st = Some 429 then ([RateLimitShort], []) else ([GdeltError (HTTPError st)], []))
     | Inl (Exception m) \<Rightarrow> ([GdeltUnreachable (Exception m)], []))"

section \<open>data.py: the secondary fetcher (NewsAPI)\<close>

definition NEWSAPI_BASE_URL :: string where
  "NEWSAPI_BASE_URL = ''https://newsapi.org/v2/everything''"

definition NEWSAPI_PAGE_SIZE :: int where
  "NEWSAPI_PAGE_SIZE = 50"

definition NEWSAPI_SORT_BY :: string where
  "NEWSAPI_SORT_BY = ''relevance''"

text \<open>An article of the secondary source; \<open>n_source_name\<close> is the \<^verbatim>\<open>name\<close> of its
  \<^verbatim>\<open>source\<close> object, absent when the object is.\<close>

record newsapi_article =
  n_title :: jfield
  n_description :: jfield
  n_source_name :: jfield
  n_url :: jfield
  n_publishedAt :: jfield

text \<open>
  \<^verbatim>\<open>re.sub(r"T(\d{2}):(\d{2}).*", r" \1:\2", s)\<close>: every match, from the left, is
  replaced; \<^verbatim>\<open>.*\<close> runs to the end of the line.
\<close>

definition is_digit :: "char \<Rightarrow> bool" where
  "is_digit c = (c \<in> set ''0123456789'')"

fun time_match :: "string \<Rightarrow> bool" where
  "time_match (t # a # b # c # d # e # rest) =
     (t = CHR ''T'' \<and> is_digit a \<and> is_digit b \<and> c = CHR '':'' \<and> is_digit d \<and> is_digit e)"
| "time_match s = False"

function re_sub_time :: "string \<Rightarrow> string" where
  "re_sub_time [] = []"
| "re_sub_time (c # cs) =
     (if time_match (c # cs)
      then '' '' @ take 2 cs @ '':'' @ take 2 (drop 3 cs)
             @ re_sub_time (dropWhile (\<lambda>x. x \<noteq> CHR 0x0A) (drop 5 cs))
      else c # re_sub_time cs)"
  by pat_completeness auto
termination
  by (relation "measure length") (auto intro: le_trans [OF length_dropWhile_le] simp: less_Suc_eq_le)

text \<open>The normalisation of \<^verbatim>\<open>publishedAt\<close> in the loop body; \<open>now_hm\<close> is
  \<^verbatim>\<open>datetime.now().strftime("%Y-%m-%d %H:%M")\<close>.\<close>

definition newsapi_pub :: "string \<Rightarrow> jfield \<Rightarrow> string" where
  "newsapi_pub now_hm published_at =
    (let pub = or_str (jget published_at) '''' in
     if pub \<noteq> [] then (if str_in ''T'' pub then re_sub_time (take 16 pub) else take 16 pub)
     else now_hm)"

text \<open>One iteration of the loop over the articles; \<open>None\<close> is \<^verbatim>\<open>continue\<close>.\<close>

definition newsapi_row :: "string \<Rightarrow> real \<times> real \<Rightarrow> newsapi_article \<Rightarrow> event option" where
  "newsapi_row now_hm coords art =
    (if \<not> truthy (jget (n_title art)) then None
     else
       let title = or_str (jget (n_title art)) '''';
           desc = or_str (jget (n_description art)) title;
           combined = title @ '' '' @ desc;
           relevance = supply_chain_relevance (Some combined)
       in if relevance < NEWSAPI_MIN_RELEVANCE then None
          else
            let src = or_str (jget (n_source_name art)) ''NewsAPI'';
                link = or_str (jget (n_url art)) ''#'';
                pub = newsapi_pub now_hm (n_publishedAt art);
                risk = heuristic_risk_from_text (Some title) (Some desc)
            in Some (event_row coords (Some title) (Some desc) (Some src) (Some link) pub risk))"

fun newsapi_rows :: "string \<Rightarrow> (nat \<Rightarrow> real \<times> real) \<Rightarrow> nat \<Rightarrow> newsapi_article list \<Rightarrow> event list" where
  "newsapi_rows now_hm draw i [] = []"
| "newsapi_rows now_hm draw i (art # arts) =
    (case newsapi_row now_hm (draw i) art of
       None \<Rightarrow> newsapi_rows now_hm draw (Suc i) arts
     | Some row \<Rightarrow> row # newsapi_rows now_hm draw (Suc i) arts)"

text \<open>\<open>quote_plus\<close> is \<^verbatim>\<open>urllib.parse.quote_plus\<close>.\<close>

definition newsapi_request_url :: "(string \<Rightarrow> string) \<Rightarrow> string \<Rightarrow> string \<Rightarrow> string" where
  "newsapi_request_url quote_plus api_key query =
     NEWSAPI_BASE_URL @ ''?q='' @ quote_plus query @ ''&pageSize='' @ show_int NEWSAPI_PAGE_SIZE
       @ ''&sortBy='' @ NEWSAPI_SORT_BY @ ''&language=en&apiKey='' @ strip api_key"

definition newsapi_try ::
  "(string \<Rightarrow> newsapi_article response) \<Rightarrow> (string \<Rightarrow> string) \<Rightarrow> string \<Rightarrow> (nat \<Rightarrow> real \<times> real)
     \<Rightarrow> string \<Rightarrow> string \<Rightarrow> exn + event list" where
  "newsapi_try http_get quote_plus now_hm draw api_key query =
    (case http_get (newsapi_request_url quote_plus api_key query) of
       Failed m \<Rightarrow> Inl (Exception m)
     | Reply status body \<Rightarrow>
         if status = 429 then Inr []
         else if 400 \<le> status \<and> status < 600 then Inl (HTTPError (Some status))
         else (case body of
                 BadPayload m \<Rightarrow> Inl (Exception m)
               | Articles arts \<Rightarrow>
                   Inr (newsapi_rows now_hm draw 0 (case arts of None \<Rightarrow> [] | Some as \<Rightarrow> as))))"

text \<open>\<^verbatim>\<open>fetch_newsapi_events(api_key, query)\<close>. It writes nothing to the sidebar: the
  list of notices it returns is always empty.\<close>

definition fetch_newsapi_events ::
  "(string \<Rightarrow> newsapi_article response) \<Rightarrow> (string \<Rightarrow> string) \<Rightarrow> string \<Rightarrow> (nat \<Rightarrow> real \<times> real)
     \<Rightarrow> string \<Rightarrow> string \<Rightarrow> notice list \<times> event list" where
  "fetch_newsapi_events http_get quote_plus now_hm draw api_key query =
    (if api_key = [] \<or> strip api_key = [] then ([], [])
     else (case newsapi_try http_get quote_plus now_hm draw api_key query of
             Inr rows \<Rightarrow> ([], rows)
           | Inl e \<Rightarrow> ([], [])))"

section \<open>data.py: the tertiary fetcher (RSS)\<close>

definition RSS_FEEDS :: "string list" where
  "RSS_FEEDS = [''https://feeds.feedburner.com/logisticsmgmt/latest'', ''https://theloadstar.com/feed/'']"

text \<open>
  What \<^verbatim>\<open>feedparser\<close> delivers. A summary or description is missing (or empty), a
  string, or a non-empty dict-like value with its \<^verbatim>\<open>value\<close> entry. The structured
  publication time is missing, a \<^verbatim>\<open>struct_time\<close>, or a truthy value without the
  \<^verbatim>\<open>tm_\<close> fields.
\<close>

datatype rawtext = RNone | RStr string | RDict "string option"

record tm =
  tm_year :: nat
  tm_mon :: nat
  tm_mday :: nat
  tm_hour :: nat
  tm_min :: nat

datatype parsed_time = NoTime | Time tm | BadTime

record rss_entry =
  e_title :: jfield
  e_summary :: rawtext
  e_description :: rawtext
  e_link :: jfield
  e_published :: jfield
  e_updated :: jfield
  e_published_parsed :: parsed_time

record parsed_feed =
  feed_title :: jfield
  entries :: "rss_entry list"

fun raw_truthy :: "rawtext \<Rightarrow> bool" where
  "raw_truthy RNone = False"
| "raw_truthy (RStr s) = (s \<noteq> [])"
| "raw_truthy (RDict v) = True"

definition raw_or :: "rawtext \<Rightarrow> rawtext \<Rightarrow> rawtext" where
  "raw_or a b = (if raw_truthy a then a else b)"

text \<open>The summary of an entry: a dict-like value without a \<^verbatim>\<open>value\<close> string makes the
  slice raise.\<close>

definition rss_summary :: "rss_entry \<Rightarrow> string \<Rightarrow> exn + string" where
  "rss_summary e title =
    (case raw_or (e_summary e) (raw_or (e_description e) (RStr title)) of
       RDict None \<Rightarrow> Inl (Exception ''TypeError'')
     | RDict (Some s) \<Rightarrow> Inr (take 200 s)
     | RStr s \<Rightarrow> Inr (take 200 s)
     | RNone \<Rightarrow> Inr (take 200 ''None''))"

definition rss_published :: "string \<Rightarrow> rss_entry \<Rightarrow> string" where
  "rss_published now_hm e =
    (let published = or_str (or_opt (jget (e_published e)) (jget (e_updated e))) '''' in
     if published \<noteq> [] then
       (case e_published_parsed e of
          NoTime \<Rightarrow> published
        | Time t \<Rightarrow> show_nat (tm_year t) @ ''-'' @ pad2 (tm_mon t) @ ''-'' @ pad2 (tm_mday t)
                      @ '' '' @ pad2 (tm_hour t) @ '':'' @ pad2 (tm_min t)
        | BadTime \<Rightarrow> (if published \<noteq> [] then take 16 published else now_hm))
     else published)"

text \<open>One iteration of the loop over the entries of a feed: an exception, \<open>None\<close> for
  \<^verbatim>\<open>continue\<close>, or the row.\<close>

definition rss_row ::
  "string \<Rightarrow> real \<times> real \<Rightarrow> string \<Rightarrow> parsed_feed \<Rightarrow> rss_entry \<Rightarrow> exn + event option" where
  "rss_row now_hm coords feed_url feed e =
    (let title = or_str (jget (e_title e)) '''' in
     if title = [] then Inr None
     else (case rss_summary e title of
             Inl ex \<Rightarrow> Inl ex
           | Inr summary \<Rightarrow>
               let link = or_str (jget (e_link e)) ''#'';
                   published = rss_published now_hm e;
                   source' = or_str (jget (feed_title feed)) feed_url
               in Inr (Some (event_row coords (Some title) (Some summary) (Some source') (Some link)
                               published 0))))"

text \<open>The loop over the entries appends to the shared list \<open>rows\<close>; when an entry raises,
  the loop is left and the rows appended so far stay. The result is the list and the
  exception, if any.\<close>

fun rss_entries ::
  "string \<Rightarrow> (nat \<Rightarrow> real \<times> real) \<Rightarrow> string \<Rightarrow> parsed_feed \<Rightarrow> nat \<Rightarrow> rss_entry list \<Rightarrow> event list
     \<Rightarrow> exn option \<times> event list" where
  "rss_entries now_hm draw feed_url feed i [] rows = (None, rows)"
| "rss_entries now_hm draw feed_url feed i (e # es) rows =
    (case rss_row now_hm (draw i) feed_url feed e of
       Inl ex \<Rightarrow> (Some ex, rows)
     | Inr None \<Rightarrow> rss_entries now_hm draw feed_url feed (Suc i) es rows
     | Inr (Some row) \<Rightarrow> rss_entries now_hm draw feed_url feed (Suc i) es (rows @ [row]))"

text \<open>The loop over the feeds: \<open>parse\<close> is \<^verbatim>\<open>feedparser.parse\<close>, \<open>draw u i\<close> the
  coordinates drawn for entry \<open>i\<close> of feed \<open>u\<close>. Every exception is swallowed by
  \<^verbatim>\<open>except Exception: continue\<close>.\<close>

fun rss_feeds ::
  "(string \<Rightarrow> exn + parsed_feed) \<Rightarrow> string \<Rightarrow> (string \<Rightarrow> nat \<Rightarrow> real \<times> real) \<Rightarrow> string list
     \<Rightarrow> event list \<Rightarrow> event list" where
  "rss_feeds parse now_hm draw [] rows = rows"
| "rss_feeds parse now_hm draw (feed_url # urls) rows =
    (case parse feed_url of
       Inl ex \<Rightarrow> rss_feeds parse now_hm draw urls rows
     | Inr feed \<Rightarrow>
         rss_feeds parse now_hm draw urls
           (snd (rss_entries now_hm (draw feed_url) feed_url feed 0
                   (take MAX_RSS_ENTRIES_PER_FEED (entries feed)) rows)))"

text \<open>\<^verbatim>\<open>fetch_rss_events()\<close>: \<open>feedparser\<close> is \<open>None\<close> when the import failed.\<close>

definition fetch_rss_events ::
  "(string \<Rightarrow> exn + parsed_feed) option \<Rightarrow> string \<Rightarrow> (string \<Rightarrow> nat \<Rightarrow> real \<times> real) \<Rightarrow> event list" where
  "fetch_rss_events feedparser now_hm draw =
    (case feedparser of
       None \<Rightarrow> []
     | Some parse \<Rightarrow> rss_feeds parse now_hm draw RSS_FEEDS [])"

section \<open>data.py: the orchestrator\<close>

text \<open>
  \<^verbatim>\<open>get_live_events()\<close>. The three fetchers it calls and \<^verbatim>\<open>os.environ.get\<close> are
  arguments; the result is the list of sidebar messages and the returned DataFrame.
\<close>

definition get_live_events ::
  "(unit \<Rightarrow> notice list \<times> event list) \<Rightarrow> (string \<Rightarrow> notice list \<times> event list) \<Rightarrow> (unit \<Rightarrow> event list)
     \<Rightarrow> (string \<Rightarrow> string option) \<Rightarrow> notice list \<times> event list" where
  "get_live_events fetch_gdelt fetch_newsapi fetch_rss environ =
    (let (w1, df) = fetch_gdelt () in
     if df \<noteq> [] then (w1, df)
     else
       let newsapi_key = strip (case environ ''NEWSAPI_API_KEY'' of None \<Rightarrow> '''' | Some v \<Rightarrow> v);
           (w2, df2) = (if newsapi_key \<noteq> [] then fetch_newsapi newsapi_key else ([], []))
       in if newsapi_key \<noteq> [] \<and> df2 \<noteq> [] then (w1 @ w2 @ [UsingNewsAPI], df2)
          else
            let df3 = fetch_rss () in
            if df3 \<noteq> [] then (w1 @ w2 @ [UsingRSS], df3)
            else (w1 @ w2, []))"

section \<open>data.py: single-event AI analysis\<close>

datatype ai_exn = JSONDecodeError string | AiException string

text \<open>\<^verbatim>\<open>s.split(sep)\<close> for a non-empty separator.\<close>

function split_acc :: "string \<Rightarrow> string \<Rightarrow> string \<Rightarrow> string list" where
  "split_acc sep acc [] = [rev acc]"
| "split_acc sep acc (c # cs) =
     (if startswith (c # cs) sep
      then rev acc # split_acc sep [] (drop (length sep - 1) cs)
      else split_acc sep (c # acc) cs)"
  by pat_completeness auto
termination
  by (relation "measure (\<lambda>(sep, acc, s). length s)") auto

definition split :: "string \<Rightarrow> string \<Rightarrow> string list" where
  "split s sep = split_acc sep [] s"

text \<open>
  \<^verbatim>\<open>int(x)\<close> on a JSON value: a float is truncated towards zero, an infinite float
  raises \<^verbatim>\<open>OverflowError\<close>, a string is parsed by \<open>parse_int\<close> (Python's \<^verbatim>\<open>int\<close> on
  \<^verbatim>\<open>str\<close>, \<open>None\<close> for \<^verbatim>\<open>ValueError\<close>), every other value raises.
\<close>

definition py_trunc :: "real \<Rightarrow> int" where
  "py_trunc r = (if 0 \<le> r then \<lfloor>r\<rfloor> else \<lceil>r\<rceil>)"

fun py_int :: "(string \<Rightarrow> int option) \<Rightarrow> json \<Rightarrow> string + int" where
  "py_int parse_int (JInt i) = Inr i"
| "py_int parse_int (JBool b) = Inr (if b then 1 else 0)"
| "py_int parse_int (JFloat (Finite r)) = Inr (py_trunc r)"
| "py_int parse_int (JFloat PosInf) = Inl ''OverflowError''"
| "py_int parse_int (JFloat NegInf) = Inl ''OverflowError''"
| "py_int parse_int (JFloat NaN) = Inl ''ValueError''"
| "py_int parse_int (JStr s) = (case parse_int s of None \<Rightarrow> Inl ''ValueError'' | Some i \<Rightarrow> Inr i)"
| "py_int parse_int JNull = Inl ''TypeError''"
| "py_int parse_int (JArr xs) = Inl ''TypeError''"
| "py_int parse_int (JObj kvs) = Inl ''TypeError''"

text \<open>\<^verbatim>\<open>d.get(k, default)\<close> on a parsed JSON object.\<close>

definition obj_get :: "(string \<times> json) list \<Rightarrow> string \<Rightarrow> json \<Rightarrow> json" where
  "obj_get d k dflt = (case map_of d k of None \<Rightarrow> dflt | Some v \<Rightarrow> v)"

definition fence :: string where
  "fence = replicate 3 (CHR 0x60)"

text \<open>The code-fence stripping between \<^verbatim>\<open>response.text.strip()\<close> and
  \<^verbatim>\<open>json.loads\<close>.\<close>

definition strip_fence :: "string \<Rightarrow> string + string" where
  "strip_fence reply =
    (let text = strip reply in
     if startswith text fence then
       (case split text fence of
          a # b # rest \<Rightarrow> Inr (if startswith b ''json'' then drop 4 b else b)
        | other \<Rightarrow> Inl ''IndexError'')
     else Inr text)"

text \<open>
  The body of the \<^verbatim>\<open>try\<close> block. \<open>generate_content\<close> is the service: the text of
  its reply to the prompt built from headline, location and snippet, or the exception it
  raises. \<open>json_loads\<close> is \<^verbatim>\<open>json.loads\<close>, with the message of its
  \<^verbatim>\<open>JSONDecodeError\<close>.
\<close>

definition gemini_try ::
  "(string \<times> string \<times> string \<Rightarrow> string + string) \<Rightarrow> (string \<Rightarrow> string + json) \<Rightarrow> (string \<Rightarrow> int option)
     \<Rightarrow> event \<Rightarrow> ai_exn + event" where
  "gemini_try generate_content json_loads parse_int ev =
    (case generate_content (headline ev, location ev, article_snippet ev) of
       Inl m \<Rightarrow> Inl (AiException m)
     | Inr reply \<Rightarrow>
        (case strip_fence reply of
           Inl m \<Rightarrow> Inl (AiException m)
         | Inr text \<Rightarrow>
            (case json_loads text of
               Inl m \<Rightarrow> Inl (JSONDecodeError m)
             | Inr (JObj analysis) \<Rightarrow>
                (case py_int parse_int (obj_get analysis ''risk_score'' (JInt 5)) of
                   Inl m \<Rightarrow> Inl (AiException m)
                 | Inr r \<Rightarrow>
                     Inr (ev\<lparr> risk_score := min 10 (max 1 r),
                              category := obj_get analysis ''category'' (category ev),
                              gemini_analysis := Some (Analysis analysis),
                              reasoning := obj_get analysis ''reasoning'' (JStr '''') \<rparr>))
             | Inr other \<Rightarrow> Inl (AiException ''AttributeError''))))"

text \<open>\<^verbatim>\<open>analyze_with_gemini(event, api_key)\<close>. The error payload is the dict with the
  keys \<^verbatim>\<open>error\<close> (the message kept here) and \<^verbatim>\<open>reasoning\<close> (always empty).\<close>

definition analyze_with_gemini ::
  "(string \<times> string \<times> string \<Rightarrow> string + string) \<Rightarrow> (string \<Rightarrow> string + json) \<Rightarrow> (string \<Rightarrow> int option)
     \<Rightarrow> event \<Rightarrow> string \<Rightarrow> event" where
  "analyze_with_gemini generate_content json_loads parse_int ev api_key =
    (if api_key = [] \<or> strip api_key = [] then ev
     else (case gemini_try generate_content json_loads parse_int ev of
             Inr ev' \<Rightarrow> ev'
           | Inl (JSONDecodeError m) \<Rightarrow>
               ev\<lparr> gemini_analysis := Some (ErrorPayload (''JSON parse failed: '' @ m)) \<rparr>
           | Inl (AiException m) \<Rightarrow> ev\<lparr> gemini_analysis := Some (ErrorPayload m) \<rparr>))"

section \<open>processing.py\<close>

text \<open>A DataFrame of events is the list of its rows; \<^verbatim>\<open>df.empty\<close> is \<open>df = []\<close>.\<close>

definition calculate_health_index :: "event list \<Rightarrow> int" where
  "calculate_health_index events_df =
    (if events_df = [] then 100
     else
       let high_risk = int (length (filter (\<lambda>e. risk_score e \<ge> 7) events_df));
           disruptions = int (length (filter (\<lambda>e. category e = JStr ''Disruption'') events_df));
           health = max 0 (100 - (high_risk * 5) - (disruptions * 3))
       in min 100 health)"

section \<open>The timestamp format of the specification\<close>

text \<open>
  The canonical format of the data model, \<^verbatim>\<open>YYYY-MM-DD HH:MM\<close>, as a predicate on
  strings: sixteen characters, a digit wherever the pattern has a letter and the
  pattern's own character elsewhere. This definition follows the words of the
  specification; it is what the timestamps built by the fetchers are compared with.
\<close>

definition canonical_ts :: "string \<Rightarrow> bool" where
  "canonical_ts s =
     list_all2 (\<lambda>p c. if p = CHR ''d'' then is_digit c else c = p) ''dddd-dd-dd dd:dd'' s"

section \<open>The result cache\<close>

text \<open>
  Modelled from the spec: the memoisation behind \<^verbatim>\<open>@st.cache_data(ttl=600)\<close> and
  \<^verbatim>\<open>.clear()\<close> is the Streamlit library's; its code is not in the repository. Following
  sections 3 and 4.4 of the specification, a cache is a keyed store whose entries hold a
  snapshot of the result and their creation time; a call with the arguments \<open>k\<close> at
  time \<open>clock\<close> (in seconds) returns the snapshot while the entry is younger than the
  time-to-live, and otherwise executes the wrapped function and replaces the entry. The
  boolean of the result tells whether the wrapped function, and with it the network call,
  was executed. Clearing a cache removes all of its entries.
\<close>

record 'v cache_entry =
  ce_value :: 'v
  ce_created :: nat

type_synonym ('k, 'v) cache = "'k \<Rightarrow> 'v cache_entry option"

text \<open>Modelled from the spec: a call through the cache (section 4.4: memoise by the call
  arguments; an entry is valid for the time-to-live from its creation; on expiry the next
  call re-executes and replaces the entry).\<close>

definition cached_call ::
  "nat \<Rightarrow> ('k \<Rightarrow> 'v) \<Rightarrow> nat \<Rightarrow> 'k \<Rightarrow> ('k, 'v) cache \<Rightarrow> 'v \<times> bool \<times> ('k, 'v) cache" where
  "cached_call ttl f clock k store =
    (case store k of
       Some e \<Rightarrow>
         if clock < ce_created e + ttl then (ce_value e, False, store)
         else (f k, True, store(k \<mapsto> \<lparr> ce_value = f k, ce_created = clock \<rparr>))
     | None \<Rightarrow> (f k, True, store(k \<mapsto> \<lparr> ce_value = f k, ce_created = clock \<rparr>)))"

text \<open>Modelled from the spec: \<^verbatim>\<open>.clear()\<close> on a decorated function (section 4.4: evict
  all entries immediately, regardless of age).\<close>

definition cache_clear :: "('k, 'v) cache \<Rightarrow> ('k, 'v) cache" where
  "cache_clear store = Map.empty"

text \<open>
  From the source: the three decorated functions of data.py, each with its own cache.
  \<^verbatim>\<open>fetch_gdelt_events\<close> and \<^verbatim>\<open>fetch_newsapi_events\<close> are decorated with
  \<^verbatim>\<open>ttl=600\<close> and keyed by their arguments; \<^verbatim>\<open>generate_mock_data\<close> has no
  time-to-live. \<^verbatim>\<open>fetch_rss_events\<close> is not decorated.
\<close>

definition FETCH_TTL :: nat where
  "FETCH_TTL = 600"

record caches =
  gdelt_cache :: "(string \<times> int, notice list \<times> event list) cache"
  newsapi_cache :: "(string \<times> string, notice list \<times> event list) cache"
  mock_cache :: "(unit, event list) cache"

definition cached_fetch_gdelt_events ::
  "(string \<Rightarrow> gdelt_article response) \<Rightarrow> string \<Rightarrow> (nat \<Rightarrow> real \<times> real) \<Rightarrow> nat \<Rightarrow> string \<Rightarrow> int
     \<Rightarrow> caches \<Rightarrow> (notice list \<times> event list) \<times> bool \<times> caches" where
  "cached_fetch_gdelt_events http_get now_ymd draw clock query max_records cs =
    (let (df, executed, store) =
           cached_call FETCH_TTL (\<lambda>(q, n). fetch_gdelt_events http_get now_ymd draw q n)
             clock (query, max_records) (gdelt_cache cs)
     in (df, executed, cs\<lparr> gdelt_cache := store \<rparr>))"

definition cached_fetch_newsapi_events ::
  "(string \<Rightarrow> newsapi_article response) \<Rightarrow> (string \<Rightarrow> string) \<Rightarrow> string \<Rightarrow> (nat \<Rightarrow> real \<times> real)
     \<Rightarrow> nat \<Rightarrow> string \<Rightarrow> string \<Rightarrow> caches \<Rightarrow> (notice list \<times> event list) \<times> bool \<times> caches" where
  "cached_fetch_newsapi_events http_get quote_plus now_hm draw clock api_key query cs =
    (let (df, executed, store) =
           cached_call FETCH_TTL (\<lambda>(key, q). fetch_newsapi_events http_get quote_plus now_hm draw key q)
             clock (api_key, query) (newsapi_cache cs)
     in (df, executed, cs\<lparr> newsapi_cache := store \<rparr>))"

text \<open>app.py: the handler of the "Refresh Data" button, on the caches.\<close>

datatype data_mode = Mock | Live

definition refresh_data :: "data_mode \<Rightarrow> caches \<Rightarrow> caches" where
  "refresh_data mode cs =
    (let cs1 = (if mode = Mock then cs\<lparr> mock_cache := cache_clear (mock_cache cs) \<rparr> else cs);
         cs2 = cs1\<lparr> gdelt_cache := cache_clear (gdelt_cache cs1) \<rparr>
     in cs2\<lparr> newsapi_cache := cache_clear (newsapi_cache cs2) \<rparr>)"

section \<open>Properties\<close>

subsection \<open>The orchestrator\<close>

text \<open>
  Claim C1. \<^verbatim>\<open>get_live_events\<close> is a strict priority fallback: it returns the primary
  fetcher's result if that is non-empty; otherwise, if the environment holds a non-blank
  \<^verbatim>\<open>NEWSAPI_API_KEY\<close>, the secondary fetcher's result if that is non-empty; otherwise the
  tertiary fetcher's result if that is non-empty; otherwise the empty result. The returned
  collection is always the output of one of the three sources, never a mix.
\<close>

theorem live_events_priority_fallback:
  "snd (get_live_events G N R env) =
     (let key = strip (case env ''NEWSAPI_API_KEY'' of None \<Rightarrow> '''' | Some v \<Rightarrow> v) in
      if snd (G ()) \<noteq> [] then snd (G ())
      else if key \<noteq> [] \<and> snd (N key) \<noteq> [] then snd (N key)
      else if R () \<noteq> [] then R ()
      else [])
   \<and> snd (get_live_events G N R env)
       \<in> {snd (G ()), snd (N (strip (case env ''NEWSAPI_API_KEY'' of None \<Rightarrow> '''' | Some v \<Rightarrow> v))), R ()}"
  unfolding get_live_events_def Let_def
  by (auto split: prod.splits option.splits)

theorem live_events_priority_fallback_witness:
  "snd (get_live_events
          (\<lambda>u. ([RateLimitLong], []))
          (\<lambda>k. ([], [event_row (0, 0) (Some ''Port strike looms'') None (Some k) None ''2026-01-05 10:00'' 4]))
          (\<lambda>u. [event_row (1, 1) (Some ''Rail freight news'') None None None ''2026-01-05 09:00'' 0])
          (\<lambda>k. if k = ''NEWSAPI_API_KEY'' then Some '' abc '' else None))
     = [event_row (0, 0) (Some ''Port strike looms'') None (Some ''abc'') None ''2026-01-05 10:00'' 4]"
proof -
  have k: "strip '' abc '' = ''abc''" by code_simp
  show ?thesis
    using live_events_priority_fallback
      [of "\<lambda>u. ([RateLimitLong], [])"
          "\<lambda>k. ([], [event_row (0, 0) (Some ''Port strike looms'') None (Some k) None ''2026-01-05 10:00'' 4])"
          "\<lambda>u. [event_row (1, 1) (Some ''Rail freight news'') None None None ''2026-01-05 09:00'' 0]"
          "\<lambda>k. if k = ''NEWSAPI_API_KEY'' then Some '' abc '' else None"]
    by (simp add: k)
qed

subsection \<open>The heuristics\<close>

text \<open>
  Claim C3. The category heuristic checks its keyword groups on the lowercased title in
  the order construction materials, disruption/blockade, "shortage", factory/assembly,
  trade/sanction, and the first group that matches decides. Hence every title that
  contains a construction-material keyword and a disruption keyword is categorised as
  Construction.
\<close>

theorem categorize_priority_order:
  "category_from_title title =
     (let t = lower (or_str title '''') in
      if list_ex (\<lambda>k. str_in k t) [''cement'', ''steel'', ''lumber'', ''infrastructure'']
        then ''Construction''
      else if list_ex (\<lambda>k. str_in k t) [''strike'', ''port'', ''congestion'', ''canal'', ''blockade'']
        then ''Disruption''
      else if str_in ''shortage'' t then ''Shortage''
      else if list_ex (\<lambda>k. str_in k t) [''factory'', ''fab'', ''assembly''] then ''Manufacturing''
      else if list_ex (\<lambda>k. str_in k t) [''sanction'', ''trade'', ''export''] then ''Geopolitical''
      else ''General'')
   \<and> (\<forall>c \<in> set [''cement'', ''steel'', ''lumber'', ''infrastructure''].
       \<forall>d \<in> set [''strike'', ''port'', ''congestion'', ''canal'', ''blockade''].
         str_in c (lower (or_str title '''')) \<and> str_in d (lower (or_str title ''''))
           \<longrightarrow> category_from_title title = ''Construction'')"
  unfolding category_from_title_def Let_def by auto

theorem categorize_priority_order_witness:
  "str_in ''steel'' (lower (or_str (Some ''Steel mill STRIKE widens'') ''''))
   \<and> str_in ''strike'' (lower (or_str (Some ''Steel mill STRIKE widens'') ''''))
   \<and> category_from_title (Some ''Steel mill STRIKE widens'') = ''Construction''"
proof -
  have a: "str_in ''steel'' (lower (or_str (Some ''Steel mill STRIKE widens'') ''''))" by code_simp
  have b: "str_in ''strike'' (lower (or_str (Some ''Steel mill STRIKE widens'') ''''))" by code_simp
  from a b categorize_priority_order [of "Some ''Steel mill STRIKE widens''"]
  show ?thesis by simp
qed

text \<open>
  Claim C4. \<^verbatim>\<open>_heuristic_risk_from_text\<close> returns an integer between 1 and 5, decided by
  tiers checked in order on the lowercased text "title description": a crisis-tier term
  gives 4 whatever else matches, otherwise a disruption-tier term gives 3, otherwise a
  generic supply-chain term gives 2, otherwise 1.
\<close>

theorem heuristic_risk_tiers:
  "1 \<le> heuristic_risk_from_text title description
   \<and> heuristic_risk_from_text title description \<le> 5
   \<and> heuristic_risk_from_text title description =
      (let t = lower (or_str title '''' @ '' '' @ or_str description '''') in
       if \<exists>w \<in> set [''strike'', ''shortage'', ''blockade'', ''outage'', ''closure'', ''crisis'']. str_in w t
         then 4
       else if \<exists>w \<in> set [''disruption'', ''delay'', ''backlog'', ''congestion'']. str_in w t
         then 3
       else if \<exists>w \<in> set [''supply chain'', ''logistics'', ''shipping'', ''freight'', ''port'', ''cargo''].
                 str_in w t
         then 2
       else 1)"
  unfolding heuristic_risk_from_text_def Let_def by simp

theorem heuristic_risk_tiers_witness:
  "heuristic_risk_from_text (Some ''Port STRIKE causes delay'') (Some ''Logistics backlog grows'') = 4
   \<and> heuristic_risk_from_text (Some ''Shipping delay'') None = 3
   \<and> heuristic_risk_from_text (Some ''Cargo volumes up'') (Some '''') = 2
   \<and> heuristic_risk_from_text None None = 1"
proof -
  have a: "lower (or_str (Some ''Port STRIKE causes delay'') '''' @ '' ''
                    @ or_str (Some ''Logistics backlog grows'') '''')
            = ''port strike causes delay logistics backlog grows''" by code_simp
  have b: "lower (or_str (Some ''Shipping delay'') '''' @ '' '' @ or_str None '''')
            = ''shipping delay ''" by code_simp
  have c: "lower (or_str (Some ''Cargo volumes up'') '''' @ '' '' @ or_str (Some '''') '''')
            = ''cargo volumes up ''" by code_simp
  have d: "lower (or_str None '''' @ '' '' @ or_str None '''') = '' ''" by code_simp
  show ?thesis
    using heuristic_risk_tiers [of "Some ''Port STRIKE causes delay''" "Some ''Logistics backlog grows''"]
      heuristic_risk_tiers [of "Some ''Shipping delay''" None]
      heuristic_risk_tiers [of "Some ''Cargo volumes up''" "Some ''''"]
      heuristic_risk_tiers [of None None]
    unfolding a b c d Let_def by simp
qed

subsection \<open>The health index\<close>

text \<open>
  Claim C10. \<^verbatim>\<open>calculate_health_index\<close> returns an integer between 0 and 100 for every
  input, exactly 100 for the empty input, and its result is 100 minus 5 for every event of
  risk score at least 7 minus 3 for every event of category Disruption, clamped below at 0.
\<close>

theorem health_index_range:
  "0 \<le> calculate_health_index df \<and> calculate_health_index df \<le> 100
   \<and> calculate_health_index [] = 100
   \<and> calculate_health_index df =
       max 0 (100 - 5 * int (length (filter (\<lambda>e. 7 \<le> risk_score e) df))
                  - 3 * int (length (filter (\<lambda>e. category e = JStr ''Disruption'') df)))"
  unfolding calculate_health_index_def Let_def by auto

theorem health_index_range_witness:
  "calculate_health_index
     [event_row (0, 0) (Some ''Port strike looms'') None None None ''2026-01-05 10:00'' 9,
      event_row (0, 0) (Some ''Steel orders rise'') None None None ''2026-01-05 11:00'' 2] = 92"
proof -
  have c1: "category_from_title (Some ''Port strike looms'') = ''Disruption''" by code_simp
  have c2: "category_from_title (Some ''Steel orders rise'') = ''Construction''" by code_simp
  show ?thesis
    using health_index_range
      [of "[event_row (0, 0) (Some ''Port strike looms'') None None None ''2026-01-05 10:00'' 9,
            event_row (0, 0) (Some ''Steel orders rise'') None None None ''2026-01-05 11:00'' 2]"]
    by (simp add: event_row_def c1 c2)
qed

subsection \<open>Single-event AI analysis\<close>

text \<open>The code-fence stripping cannot fail: a text that starts with the fence splits
  into at least two parts.\<close>

lemma split_acc_nonempty: "split_acc sep acc s \<noteq> []"
  by (induction sep acc s rule: split_acc.induct) auto

lemma split_two:
  assumes "startswith s sep" and "sep \<noteq> []"
  shows "\<exists>a b rest. split s sep = a # b # rest"
proof (cases s)
  case Nil
  with assms show ?thesis by (cases sep) auto
next
  case (Cons c cs)
  obtain b rest where "split_acc sep [] (drop (length sep - 1) cs) = b # rest"
    using split_acc_nonempty [of sep "[]" "drop (length sep - 1) cs"] by (auto simp: neq_Nil_conv)
  with Cons assms show ?thesis by (simp add: split_def)
qed

lemma strip_fence_total: "\<exists>text. strip_fence reply = Inr text"
proof (cases "startswith (strip reply) fence")
  case True
  have "fence \<noteq> []" by (simp add: fence_def)
  from split_two [OF True this] obtain a b rest where "split (strip reply) fence = a # b # rest"
    by blast
  with True show ?thesis by (simp add: strip_fence_def)
next
  case False
  then show ?thesis by (simp add: strip_fence_def)
qed


text \<open>
  Claim C7. When the service's reply to a single-event analysis is malformed JSON
  (\<^verbatim>\<open>json.loads\<close> rejects the text left after the code-fence stripping), the returned
  event carries an error marker in \<^verbatim>\<open>gemini_analysis\<close>, nothing is raised, and its
  \<^verbatim>\<open>risk_score\<close> and \<^verbatim>\<open>category\<close> are those of the original event.
\<close>

theorem malformed_json_error_marker:
  assumes "api_key \<noteq> []" and "strip api_key \<noteq> []"
    and "generate_content (headline ev, location ev, article_snippet ev) = Inr reply"
    and "strip_fence reply = Inr text"
    and "json_loads text = Inl m"
  shows "analyze_with_gemini generate_content json_loads parse_int ev api_key
           = ev\<lparr> gemini_analysis := Some (ErrorPayload (''JSON parse failed: '' @ m)) \<rparr>
         \<and> risk_score (analyze_with_gemini generate_content json_loads parse_int ev api_key) = risk_score ev
         \<and> category (analyze_with_gemini generate_content json_loads parse_int ev api_key) = category ev"
  using assms by (simp add: analyze_with_gemini_def gemini_try_def)

theorem malformed_json_error_marker_witness:
  "analyze_with_gemini (\<lambda>p. Inr (fence @ ''json{risk_score: 7, categ  ''))
      (\<lambda>s. if s = ''{risk_score: 7, categ'' then Inl ''Expecting property name'' else Inr JNull)
      (\<lambda>s. None)
      (event_row (0, 0) (Some ''Port strike looms'') None None None ''2026-01-05 10:00'' 4) ''key''
    = (event_row (0, 0) (Some ''Port strike looms'') None None None ''2026-01-05 10:00'' 4)
        \<lparr> gemini_analysis := Some (ErrorPayload ''JSON parse failed: Expecting property name'') \<rparr>"
proof -
  have k: "strip ''key'' \<noteq> []" by code_simp
  have sf: "strip_fence (fence @ ''json{risk_score: 7, categ  '') = Inr ''{risk_score: 7, categ''"
    by code_simp
  show ?thesis
    using malformed_json_error_marker
      [of "''key''" "\<lambda>p. Inr (fence @ ''json{risk_score: 7, categ  '')"
          "event_row (0, 0) (Some ''Port strike looms'') None None None ''2026-01-05 10:00'' 4"
          "fence @ ''json{risk_score: 7, categ  ''" "''{risk_score: 7, categ''"
          "\<lambda>s. if s = ''{risk_score: 7, categ'' then Inl ''Expecting property name'' else Inr JNull"
          "''Expecting property name''" "\<lambda>s. None", OF _ k _ sf]
    by simp
qed


subsection \<open>Risk scores\<close>

lemma heuristic_risk_bounds:
  "1 \<le> heuristic_risk_from_text t d \<and> heuristic_risk_from_text t d \<le> 4"
  by (simp add: heuristic_risk_from_text_def Let_def)

lemma gdelt_row_risk: "gdelt_row now coords art = Inr e \<Longrightarrow> risk_score e = 0"
  by (auto simp: gdelt_row_def Let_def event_row_def split: option.splits)

lemma gdelt_rows_risk:
  "gdelt_rows now draw i arts = Inr rows \<Longrightarrow> e \<in> set rows \<Longrightarrow> risk_score e = 0"
proof (induction arts arbitrary: i rows)
  case Nil
  then show ?case by simp
next
  case (Cons art arts)
  then show ?case
    by (auto split: sum.splits dest: gdelt_row_risk)
qed

lemma fetch_gdelt_risk:
  "e \<in> set (snd (fetch_gdelt_events http_get now draw query max_records)) \<Longrightarrow> risk_score e = 0"
  by (auto simp: fetch_gdelt_events_def gdelt_try_def
           split: sum.splits exn.splits response.splits payload.splits option.splits if_splits
           dest: gdelt_rows_risk)

lemma newsapi_row_risk:
  "newsapi_row now coords art = Some e \<Longrightarrow> 1 \<le> risk_score e \<and> risk_score e \<le> 4"
  using heuristic_risk_bounds
  by (auto simp: newsapi_row_def Let_def event_row_def split: if_splits)

lemma newsapi_rows_risk:
  "e \<in> set (newsapi_rows now draw i arts) \<Longrightarrow> 1 \<le> risk_score e \<and> risk_score e \<le> 4"
proof (induction arts arbitrary: i)
  case Nil
  then show ?case by simp
next
  case (Cons art arts)
  then show ?case
    by (cases "newsapi_row now (draw i) art") (auto dest: newsapi_row_risk)
qed

lemma fetch_newsapi_risk:
  "e \<in> set (snd (fetch_newsapi_events http_get quote_plus now draw api_key query))
     \<Longrightarrow> 1 \<le> risk_score e \<and> risk_score e \<le> 4"
  by (auto simp: fetch_newsapi_events_def newsapi_try_def
           split: sum.splits response.splits payload.splits if_splits
           dest: newsapi_rows_risk)

lemma rss_row_risk: "rss_row now coords u feed en = Inr (Some e) \<Longrightarrow> risk_score e = 0"
  by (auto simp: rss_row_def Let_def event_row_def split: if_splits sum.splits)

lemma rss_entries_risk:
  "\<forall>e \<in> set rows. risk_score e = 0
     \<Longrightarrow> \<forall>e \<in> set (snd (rss_entries now draw u feed i es rows)). risk_score e = 0"
proof (induction es arbitrary: i rows)
  case Nil
  then show ?case by simp
next
  case (Cons en es)
  show ?case
  proof (cases "rss_row now (draw i) u feed en")
    case (Inl ex)
    with Cons.prems show ?thesis by simp
  next
    case (Inr r)
    show ?thesis
    proof (cases r)
      case None
      with Inr Cons show ?thesis by simp
    next
      case (Some row)
      with Inr have "risk_score row = 0" by (auto dest: rss_row_risk)
      with Cons.prems have "\<forall>e \<in> set (rows @ [row]). risk_score e = 0" by auto
      from Cons.IH [OF this] Inr Some show ?thesis by simp
    qed
  qed
qed

lemma rss_feeds_risk:
  "\<forall>e \<in> set rows. risk_score e = 0
     \<Longrightarrow> \<forall>e \<in> set (rss_feeds parse now draw urls rows). risk_score e = 0"
proof (induction urls arbitrary: rows)
  case Nil
  then show ?case by simp
next
  case (Cons u urls)
  show ?case
  proof (cases "parse u")
    case (Inl ex)
    with Cons show ?thesis by simp
  next
    case (Inr feed)
    from rss_entries_risk [OF Cons.prems]
    have "\<forall>e \<in> set (snd (rss_entries now (draw u) u feed 0
              (take MAX_RSS_ENTRIES_PER_FEED (entries feed)) rows)). risk_score e = 0" .
    from Cons.IH [OF this] Inr show ?thesis by simp
  qed
qed

lemma fetch_rss_risk:
  "e \<in> set (fetch_rss_events feedparser now draw) \<Longrightarrow> risk_score e = 0"
  using rss_feeds_risk [of "[]"]
  by (auto simp: fetch_rss_events_def split: option.splits)

lemma gemini_try_clamped:
  assumes "gemini_try generate_content json_loads parse_int ev = Inr ev'"
  shows "\<exists>analysis r. gemini_analysis ev' = Some (Analysis analysis)
           \<and> py_int parse_int (obj_get analysis ''risk_score'' (JInt 5)) = Inr r
           \<and> risk_score ev' = (if r < 1 then 1 else if 10 < r then 10 else r)"
proof -
  have clamp: "min 10 (max 1 r) = (if r < 1 then 1 else if 10 < r then 10 else r)" for r :: int
    by auto
  from assms show ?thesis
    by (auto simp: gemini_try_def clamp simp del: min_less_iff_conj max_less_iff_conj
          split: sum.splits json.splits)
qed


lemma analyze_success:
  assumes "ai_key \<noteq> []" and "strip ai_key \<noteq> []"
    and "generate_content (headline ev, location ev, article_snippet ev) = Inr reply"
    and "strip_fence reply = Inr body"
    and "json_loads body = Inr (JObj analysis)"
    and "py_int parse_int (obj_get analysis ''risk_score'' (JInt 5)) = Inr r"
  shows "analyze_with_gemini generate_content json_loads parse_int ev ai_key
           = ev\<lparr> risk_score := (if r < 1 then 1 else if 10 < r then 10 else r),
                  category := obj_get analysis ''category'' (category ev),
                  gemini_analysis := Some (Analysis analysis),
                  reasoning := obj_get analysis ''reasoning'' (JStr '''') \<rparr>"
proof -
  have clamp: "min 10 (max 1 r) = (if r < 1 then 1 else if 10 < r then 10 else r)"
    by auto
  from assms show ?thesis
    by (simp add: analyze_with_gemini_def gemini_try_def clamp
          del: min_less_iff_conj max_less_iff_conj)
qed

lemma analyze_int_rejected:
  assumes "ai_key \<noteq> []" and "strip ai_key \<noteq> []"
    and "generate_content (headline ev, location ev, article_snippet ev) = Inr reply"
    and "strip_fence reply = Inr body"
    and "json_loads body = Inr (JObj analysis)"
    and "py_int parse_int (obj_get analysis ''risk_score'' (JInt 5)) = Inl m"
  shows "analyze_with_gemini generate_content json_loads parse_int ev ai_key
           = ev\<lparr> gemini_analysis := Some (ErrorPayload m) \<rparr>"
  using assms by (simp add: analyze_with_gemini_def gemini_try_def)

lemma analyze_enriched_range:
  assumes "ai_key \<noteq> []" and "strip ai_key \<noteq> []"
    and "gemini_analysis (analyze_with_gemini generate_content json_loads parse_int ev ai_key)
           = Some (Analysis a)"
  shows "1 \<le> risk_score (analyze_with_gemini generate_content json_loads parse_int ev ai_key)
         \<and> risk_score (analyze_with_gemini generate_content json_loads parse_int ev ai_key) \<le> 10"
proof (cases "gemini_try generate_content json_loads parse_int ev")
  case (Inl ex)
  with assms show ?thesis
    by (cases ex) (simp_all add: analyze_with_gemini_def)
next
  case (Inr ev')
  from gemini_try_clamped [OF Inr] obtain r where
    "risk_score ev' = (if r < 1 then 1 else if 10 < r then 10 else r)" by blast
  moreover from Inr assms have "analyze_with_gemini generate_content json_loads parse_int ev ai_key = ev'"
    by (simp add: analyze_with_gemini_def)
  ultimately show ?thesis by auto
qed

text \<open>
  Claim C5. Every event record built by a fetcher has a risk score in [0,10]: the primary
  and the tertiary fetcher leave the normaliser's default 0, the secondary assigns the
  heuristic score, between 1 and 5. After a successful AI enrichment the score is in
  [1,10]: whatever \<^verbatim>\<open>risk_score\<close> the service's reply holds, the event gets its
  integer value clamped into that range (an integer as it is, a float truncated, a numeric
  string parsed, a boolean as 0 or 1, 5 when the key is missing), never the value itself
  when it lies outside; a value that \<^verbatim>\<open>int\<close> rejects leaves the score untouched and
  marks the event with an error.
\<close>

theorem risk_score_ranges:
  "(\<forall>e \<in> set (snd (fetch_gdelt_events http_get now_ymd draw query max_records)).
      0 \<le> risk_score e \<and> risk_score e \<le> 10 \<and> risk_score e = 0)
   \<and> (\<forall>e \<in> set (snd (fetch_newsapi_events http_get' quote_plus now_hm draw api_key query')).
      1 \<le> risk_score e \<and> risk_score e \<le> 5)
   \<and> (\<forall>e \<in> set (fetch_rss_events feedparser now_hm draw').
      0 \<le> risk_score e \<and> risk_score e \<le> 10 \<and> risk_score e = 0)
   \<and> (\<forall>a. ai_key \<noteq> [] \<and> strip ai_key \<noteq> []
          \<and> gemini_analysis (analyze_with_gemini generate_content json_loads parse_int ev ai_key)
               = Some (Analysis a)
        \<longrightarrow> 1 \<le> risk_score (analyze_with_gemini generate_content json_loads parse_int ev ai_key)
            \<and> risk_score (analyze_with_gemini generate_content json_loads parse_int ev ai_key) \<le> 10)
   \<and> (\<forall>reply body analysis.
        ai_key \<noteq> [] \<and> strip ai_key \<noteq> []
        \<and> generate_content (headline ev, location ev, article_snippet ev) = Inr reply
        \<and> strip_fence reply = Inr body
        \<and> json_loads body = Inr (JObj analysis)
        \<longrightarrow>
          (\<forall>i. map_of analysis ''risk_score'' = Some (JInt i)
             \<longrightarrow> analyze_with_gemini generate_content json_loads parse_int ev ai_key
                   = ev\<lparr> risk_score := (if i < 1 then 1 else if 10 < i then 10 else i),
                          category := (case map_of analysis ''category'' of
                                         None \<Rightarrow> category ev | Some c \<Rightarrow> c),
                          gemini_analysis := Some (Analysis analysis),
                          reasoning := (case map_of analysis ''reasoning'' of
                                          None \<Rightarrow> JStr '''' | Some t \<Rightarrow> t) \<rparr>)
          \<and> (map_of analysis ''risk_score'' = None
             \<longrightarrow> risk_score (analyze_with_gemini generate_content json_loads parse_int ev ai_key) = 5)
          \<and> (\<forall>x. map_of analysis ''risk_score'' = Some (JFloat (Finite x))
             \<longrightarrow> risk_score (analyze_with_gemini generate_content json_loads parse_int ev ai_key)
                   = (if (if 0 \<le> x then \<lfloor>x\<rfloor> else \<lceil>x\<rceil>) < 1 then 1
                      else if 10 < (if 0 \<le> x then \<lfloor>x\<rfloor> else \<lceil>x\<rceil>) then 10
                      else (if 0 \<le> x then \<lfloor>x\<rfloor> else \<lceil>x\<rceil>)))
          \<and> (\<forall>s i. map_of analysis ''risk_score'' = Some (JStr s) \<and> parse_int s = Some i
             \<longrightarrow> risk_score (analyze_with_gemini generate_content json_loads parse_int ev ai_key)
                   = (if i < 1 then 1 else if 10 < i then 10 else i))
          \<and> (\<forall>b. map_of analysis ''risk_score'' = Some (JBool b)
             \<longrightarrow> risk_score (analyze_with_gemini generate_content json_loads parse_int ev ai_key) = 1)
          \<and> (\<forall>v. map_of analysis ''risk_score'' = Some v
                \<and> (v = JNull \<or> v = JFloat PosInf \<or> v = JFloat NegInf \<or> v = JFloat NaN
                    \<or> (\<exists>xs. v = JArr xs) \<or> (\<exists>kvs. v = JObj kvs)
                    \<or> (\<exists>s. v = JStr s \<and> parse_int s = None))
             \<longrightarrow> risk_score (analyze_with_gemini generate_content json_loads parse_int ev ai_key)
                   = risk_score ev
                 \<and> (\<exists>m. gemini_analysis
                           (analyze_with_gemini generate_content json_loads parse_int ev ai_key)
                         = Some (ErrorPayload m))))"
proof -
  have g: "\<forall>e \<in> set (snd (fetch_gdelt_events http_get now_ymd draw query max_records)).
      0 \<le> risk_score e \<and> risk_score e \<le> 10 \<and> risk_score e = 0"
    using fetch_gdelt_risk [of _ http_get now_ymd draw query max_records] by simp
  have n: "\<forall>e \<in> set (snd (fetch_newsapi_events http_get' quote_plus now_hm draw api_key query')).
      1 \<le> risk_score e \<and> risk_score e \<le> 5"
  proof
    fix e assume "e \<in> set (snd (fetch_newsapi_events http_get' quote_plus now_hm draw api_key query'))"
    from fetch_newsapi_risk [OF this] show "1 \<le> risk_score e \<and> risk_score e \<le> 5" by simp
  qed
  have r: "\<forall>e \<in> set (fetch_rss_events feedparser now_hm draw').
      0 \<le> risk_score e \<and> risk_score e \<le> 10 \<and> risk_score e = 0"
    using fetch_rss_risk [of _ feedparser now_hm draw'] by simp
  have a: "\<forall>a. ai_key \<noteq> [] \<and> strip ai_key \<noteq> []
          \<and> gemini_analysis (analyze_with_gemini generate_content json_loads parse_int ev ai_key)
               = Some (Analysis a)
        \<longrightarrow> 1 \<le> risk_score (analyze_with_gemini generate_content json_loads parse_int ev ai_key)
            \<and> risk_score (analyze_with_gemini generate_content json_loads parse_int ev ai_key) \<le> 10"
    using analyze_enriched_range [of ai_key generate_content json_loads parse_int ev] by blast
  have b: "(\<forall>i. map_of analysis ''risk_score'' = Some (JInt i)
             \<longrightarrow> analyze_with_gemini generate_content json_loads parse_int ev ai_key
                   = ev\<lparr> risk_score := (if i < 1 then 1 else if 10 < i then 10 else i),
                          category := (case map_of analysis ''category'' of
                                         None \<Rightarrow> category ev | Some c \<Rightarrow> c),
                          gemini_analysis := Some (Analysis analysis),
                          reasoning := (case map_of analysis ''reasoning'' of
                                          None \<Rightarrow> JStr '''' | Some t \<Rightarrow> t) \<rparr>)
          \<and> (map_of analysis ''risk_score'' = None
             \<longrightarrow> risk_score (analyze_with_gemini generate_content json_loads parse_int ev ai_key) = 5)
          \<and> (\<forall>x. map_of analysis ''risk_score'' = Some (JFloat (Finite x))
             \<longrightarrow> risk_score (analyze_with_gemini generate_content json_loads parse_int ev ai_key)
                   = (if (if 0 \<le> x then \<lfloor>x\<rfloor> else \<lceil>x\<rceil>) < 1 then 1
                      else if 10 < (if 0 \<le> x then \<lfloor>x\<rfloor> else \<lceil>x\<rceil>) then 10
                      else (if 0 \<le> x then \<lfloor>x\<rfloor> else \<lceil>x\<rceil>)))
          \<and> (\<forall>s i. map_of analysis ''risk_score'' = Some (JStr s) \<and> parse_int s = Some i
             \<longrightarrow> risk_score (analyze_with_gemini generate_content json_loads parse_int ev ai_key)
                   = (if i < 1 then 1 else if 10 < i then 10 else i))
          \<and> (\<forall>b. map_of analysis ''risk_score'' = Some (JBool b)
             \<longrightarrow> risk_score (analyze_with_gemini generate_content json_loads parse_int ev ai_key) = 1)
          \<and> (\<forall>v. map_of analysis ''risk_score'' = Some v
                \<and> (v = JNull \<or> v = JFloat PosInf \<or> v = JFloat NegInf \<or> v = JFloat NaN
                    \<or> (\<exists>xs. v = JArr xs) \<or> (\<exists>kvs. v = JObj kvs)
                    \<or> (\<exists>s. v = JStr s \<and> parse_int s = None))
             \<longrightarrow> risk_score (analyze_with_gemini generate_content json_loads parse_int ev ai_key)
                   = risk_score ev
                 \<and> (\<exists>m. gemini_analysis
                           (analyze_with_gemini generate_content json_loads parse_int ev ai_key)
                         = Some (ErrorPayload m)))"
    if h: "ai_key \<noteq> [] \<and> strip ai_key \<noteq> []
        \<and> generate_content (headline ev, location ev, article_snippet ev) = Inr reply
        \<and> strip_fence reply = Inr body
        \<and> json_loads body = Inr (JObj analysis)" for reply body analysis
  proof -
    from h have k: "ai_key \<noteq> []" "strip ai_key \<noteq> []"
      and gc: "generate_content (headline ev, location ev, article_snippet ev) = Inr reply"
      and sf: "strip_fence reply = Inr body" and jl: "json_loads body = Inr (JObj analysis)"
      by simp_all
    note ok = analyze_success [where generate_content = generate_content and ev = ev
        and parse_int = parse_int and json_loads = json_loads, OF k gc sf jl]
    have sel: "risk_score (e\<lparr> risk_score := v, category := c, gemini_analysis := g, reasoning := t \<rparr>) = v"
      for e :: event and v c g t
      by simp
    note bad = analyze_int_rejected [where generate_content = generate_content and ev = ev
        and parse_int = parse_int and json_loads = json_loads, OF k gc sf jl]
    have c1: "\<forall>i. map_of analysis ''risk_score'' = Some (JInt i)
             \<longrightarrow> analyze_with_gemini generate_content json_loads parse_int ev ai_key
                   = ev\<lparr> risk_score := (if i < 1 then 1 else if 10 < i then 10 else i),
                          category := (case map_of analysis ''category'' of
                                         None \<Rightarrow> category ev | Some c \<Rightarrow> c),
                          gemini_analysis := Some (Analysis analysis),
                          reasoning := (case map_of analysis ''reasoning'' of
                                          None \<Rightarrow> JStr '''' | Some t \<Rightarrow> t) \<rparr>"
    proof (intro allI impI)
      fix i assume "map_of analysis ''risk_score'' = Some (JInt i)"
      then have "py_int parse_int (obj_get analysis ''risk_score'' (JInt 5)) = Inr i"
        by (simp add: obj_get_def)
      from ok [OF this] show "analyze_with_gemini generate_content json_loads parse_int ev ai_key
                   = ev\<lparr> risk_score := (if i < 1 then 1 else if 10 < i then 10 else i),
                          category := (case map_of analysis ''category'' of
                                         None \<Rightarrow> category ev | Some c \<Rightarrow> c),
                          gemini_analysis := Some (Analysis analysis),
                          reasoning := (case map_of analysis ''reasoning'' of
                                          None \<Rightarrow> JStr '''' | Some t \<Rightarrow> t) \<rparr>"
        by (simp add: obj_get_def)
    qed
    have c2: "map_of analysis ''risk_score'' = None
             \<longrightarrow> risk_score (analyze_with_gemini generate_content json_loads parse_int ev ai_key) = 5"
    proof
      assume "map_of analysis ''risk_score'' = None"
      then have "py_int parse_int (obj_get analysis ''risk_score'' (JInt 5)) = Inr 5"
        by (simp add: obj_get_def)
      from ok [OF this]
      show "risk_score (analyze_with_gemini generate_content json_loads parse_int ev ai_key) = 5"
        by simp
    qed
    have c3: "\<forall>x. map_of analysis ''risk_score'' = Some (JFloat (Finite x))
             \<longrightarrow> risk_score (analyze_with_gemini generate_content json_loads parse_int ev ai_key)
                   = (if (if 0 \<le> x then \<lfloor>x\<rfloor> else \<lceil>x\<rceil>) < 1 then 1
                      else if 10 < (if 0 \<le> x then \<lfloor>x\<rfloor> else \<lceil>x\<rceil>) then 10
                      else (if 0 \<le> x then \<lfloor>x\<rfloor> else \<lceil>x\<rceil>))"
    proof (intro allI impI)
      fix x assume "map_of analysis ''risk_score'' = Some (JFloat (Finite x))"
      then have "py_int parse_int (obj_get analysis ''risk_score'' (JInt 5))
                   = Inr (if 0 \<le> x then \<lfloor>x\<rfloor> else \<lceil>x\<rceil>)"
        by (simp add: obj_get_def py_trunc_def)
      then show "risk_score (analyze_with_gemini generate_content json_loads parse_int ev ai_key)
                   = (if (if 0 \<le> x then \<lfloor>x\<rfloor> else \<lceil>x\<rceil>) < 1 then 1
                      else if 10 < (if 0 \<le> x then \<lfloor>x\<rfloor> else \<lceil>x\<rceil>) then 10
                      else (if 0 \<le> x then \<lfloor>x\<rfloor> else \<lceil>x\<rceil>))"
        by (simp only: ok sel)
    qed
    have c4: "\<forall>s i. map_of analysis ''risk_score'' = Some (JStr s) \<and> parse_int s = Some i
             \<longrightarrow> risk_score (analyze_with_gemini generate_content json_loads parse_int ev ai_key)
                   = (if i < 1 then 1 else if 10 < i then 10 else i)"
    proof (intro allI impI)
      fix s i assume "map_of analysis ''risk_score'' = Some (JStr s) \<and> parse_int s = Some i"
      then have "py_int parse_int (obj_get analysis ''risk_score'' (JInt 5)) = Inr i"
        by (simp add: obj_get_def)
      then show "risk_score (analyze_with_gemini generate_content json_loads parse_int ev ai_key)
                   = (if i < 1 then 1 else if 10 < i then 10 else i)"
        by (simp only: ok sel)
    qed
    have c5: "\<forall>b. map_of analysis ''risk_score'' = Some (JBool b)
             \<longrightarrow> risk_score (analyze_with_gemini generate_content json_loads parse_int ev ai_key) = 1"
    proof (intro allI impI)
      fix b assume "map_of analysis ''risk_score'' = Some (JBool b)"
      then have "py_int parse_int (obj_get analysis ''risk_score'' (JInt 5))
                   = Inr (if b then 1 else 0)"
        by (simp add: obj_get_def)
      from ok [OF this]
      show "risk_score (analyze_with_gemini generate_content json_loads parse_int ev ai_key) = 1"
        by simp
    qed
    have c6: "\<forall>v. map_of analysis ''risk_score'' = Some v
                \<and> (v = JNull \<or> v = JFloat PosInf \<or> v = JFloat NegInf \<or> v = JFloat NaN
                    \<or> (\<exists>xs. v = JArr xs) \<or> (\<exists>kvs. v = JObj kvs)
                    \<or> (\<exists>s. v = JStr s \<and> parse_int s = None))
             \<longrightarrow> risk_score (analyze_with_gemini generate_content json_loads parse_int ev ai_key)
                   = risk_score ev
                 \<and> (\<exists>m. gemini_analysis
                           (analyze_with_gemini generate_content json_loads parse_int ev ai_key)
                         = Some (ErrorPayload m))"
    proof (intro allI impI)
      fix v
      assume v: "map_of analysis ''risk_score'' = Some v
                \<and> (v = JNull \<or> v = JFloat PosInf \<or> v = JFloat NegInf \<or> v = JFloat NaN
                    \<or> (\<exists>xs. v = JArr xs) \<or> (\<exists>kvs. v = JObj kvs)
                    \<or> (\<exists>s. v = JStr s \<and> parse_int s = None))"
      then have "\<exists>m. py_int parse_int v = Inl m" by auto
      with v obtain m where "py_int parse_int (obj_get analysis ''risk_score'' (JInt 5)) = Inl m"
        by (auto simp: obj_get_def)
      from bad [OF this]
      show "risk_score (analyze_with_gemini generate_content json_loads parse_int ev ai_key)
                   = risk_score ev
                 \<and> (\<exists>m. gemini_analysis
                           (analyze_with_gemini generate_content json_loads parse_int ev ai_key)
                         = Some (ErrorPayload m))"
        by simp
    qed
    show ?thesis
      by (intro conjI) (fact c1, fact c2, fact c3, fact c4, fact c5, fact c6)
  qed
  show ?thesis
    apply (intro conjI)
        apply (fact g)
       apply (fact n)
      apply (fact r)
     apply (fact a)
    apply (intro allI impI)
    apply (erule b)
    done
qed

theorem risk_score_ranges_witness:
  "risk_score (analyze_with_gemini (\<lambda>p. Inr ''{}'') (\<lambda>s. Inr (JObj [(''risk_score'', JInt (- 3))]))
        (\<lambda>s. None)
        (event_row (0, 0) (Some ''Port strike looms'') None None None ''2026-01-05 10:00'' 4) ''key'') = 1
   \<and> risk_score (analyze_with_gemini (\<lambda>p. Inr ''{}'') (\<lambda>s. Inr (JObj [(''risk_score'', JInt 42)]))
        (\<lambda>s. None)
        (event_row (0, 0) (Some ''Port strike looms'') None None None ''2026-01-05 10:00'' 4) ''key'') = 10
   \<and> risk_score (analyze_with_gemini (\<lambda>p. Inr ''{}'') (\<lambda>s. Inr (JObj [(''risk_score'', JInt 7)]))
        (\<lambda>s. None)
        (event_row (0, 0) (Some ''Port strike looms'') None None None ''2026-01-05 10:00'' 4) ''key'') = 7
   \<and> map risk_score (snd (fetch_newsapi_events
        (\<lambda>url. Reply 200 (Articles (Some [\<lparr> n_title = Str ''Port strike looms'', n_description = Null,
            n_source_name = Absent, n_url = Absent, n_publishedAt = Absent \<rparr>])))
        (\<lambda>q. q) ''2026-01-05 12:00'' (\<lambda>i. (0, 0)) ''key'' ''freight'')) = [4]"
proof -
  let ?ev = "event_row (0, 0) (Some ''Port strike looms'') None None None ''2026-01-05 10:00'' 4"
  have k: "''key'' \<noteq> [] \<and> strip ''key'' \<noteq> []" by code_simp
  have sf: "strip_fence ''{}'' = Inr ''{}''" by code_simp
  have ai: "risk_score (analyze_with_gemini (\<lambda>p. Inr ''{}'') (\<lambda>s. Inr (JObj [(''risk_score'', JInt v)]))
        (\<lambda>s. None) ?ev ''key'') = (if v < 1 then 1 else if 10 < v then 10 else v)" for v
  proof -
    note r = risk_score_ranges
      [where generate_content = "\<lambda>p. Inr ''{}''"
         and json_loads = "\<lambda>s. Inr (JObj [(''risk_score'', JInt v)])"
         and parse_int = "\<lambda>s. None" and ev = ?ev and ai_key = "''key''",
       THEN conjunct2, THEN conjunct2, THEN conjunct2, THEN conjunct2, rule_format,
       where reply = "''{}''" and body = "''{}''" and analysis = "[(''risk_score'', JInt v)]",
       THEN conjunct1, rule_format, of v]
    have "analyze_with_gemini (\<lambda>p. Inr ''{}'') (\<lambda>s. Inr (JObj [(''risk_score'', JInt v)]))
        (\<lambda>s. None) ?ev ''key''
      = ?ev\<lparr> risk_score := (if v < 1 then 1 else if 10 < v then 10 else v),
              category := (case map_of [(''risk_score'', JInt v)] ''category'' of
                             None \<Rightarrow> category ?ev | Some c \<Rightarrow> c),
              gemini_analysis := Some (Analysis [(''risk_score'', JInt v)]),
              reasoning := (case map_of [(''risk_score'', JInt v)] ''reasoning'' of
                              None \<Rightarrow> JStr '''' | Some t \<Rightarrow> t) \<rparr>"
      using k sf by (intro r) simp_all
    then show ?thesis by simp
  qed
  have rel: "supply_chain_relevance (Some (''Port strike looms'' @ '' '' @ ''Port strike looms'')) = 2"
    by code_simp
  have risk: "heuristic_risk_from_text (Some ''Port strike looms'') (Some ''Port strike looms'') = 4"
    by code_simp
  have b: "map risk_score (snd (fetch_newsapi_events
        (\<lambda>url. Reply 200 (Articles (Some [\<lparr> n_title = Str ''Port strike looms'', n_description = Null,
            n_source_name = Absent, n_url = Absent, n_publishedAt = Absent \<rparr>])))
        (\<lambda>q. q) ''2026-01-05 12:00'' (\<lambda>i. (0, 0)) ''key'' ''freight'')) = [4]"
    using k rel risk
    by (simp add: fetch_newsapi_events_def newsapi_try_def newsapi_row_def Let_def
          NEWSAPI_MIN_RELEVANCE_def event_row_def)
  from ai [of "- 3"] ai [of 42] ai [of 7] b show ?thesis by simp
qed

subsection \<open>The relevance gate\<close>

lemma keywords_lower: "map lower NEWSAPI_RELEVANCE_KEYWORDS = NEWSAPI_RELEVANCE_KEYWORDS"
  by code_simp

lemma keywords_distinct: "distinct NEWSAPI_RELEVANCE_KEYWORDS"
  by code_simp

lemma keywords_length: "length NEWSAPI_RELEVANCE_KEYWORDS = 26"
  by (simp add: NEWSAPI_RELEVANCE_KEYWORDS_def)

lemma keywords_nonempty: "[] \<notin> set NEWSAPI_RELEVANCE_KEYWORDS"
  by (simp add: NEWSAPI_RELEVANCE_KEYWORDS_def)

lemma sum_list_ones: "sum_list (map (\<lambda>x. 1::int) xs) = int (length xs)"
  by (induction xs) auto

lemma relevance_card:
  "supply_chain_relevance (Some s)
     = int (card {kw \<in> set NEWSAPI_RELEVANCE_KEYWORDS. str_in kw (lower s)})"
proof (cases "s = []")
  case True
  have "{kw \<in> set NEWSAPI_RELEVANCE_KEYWORDS. str_in kw (lower [])} = {}"
    using keywords_nonempty by (auto simp: lower_def)
  with True show ?thesis by (simp add: supply_chain_relevance_def)
next
  case False
  have low: "lower kw = kw" if "kw \<in> set NEWSAPI_RELEVANCE_KEYWORDS" for kw
  proof -
    have "map lower NEWSAPI_RELEVANCE_KEYWORDS = map (\<lambda>x. x) NEWSAPI_RELEVANCE_KEYWORDS"
      using keywords_lower by simp
    then have "\<forall>x \<in> set NEWSAPI_RELEVANCE_KEYWORDS. lower x = x"
      by (simp only: map_eq_conv)
    with that show ?thesis by blast
  qed
  have "filter (\<lambda>kw. str_in (lower kw) (lower s)) NEWSAPI_RELEVANCE_KEYWORDS
          = filter (\<lambda>kw. str_in kw (lower s)) NEWSAPI_RELEVANCE_KEYWORDS"
    by (rule filter_cong) (auto simp: low)
  moreover have "length (filter (\<lambda>kw. str_in kw (lower s)) NEWSAPI_RELEVANCE_KEYWORDS)
          = card {kw \<in> set NEWSAPI_RELEVANCE_KEYWORDS. str_in kw (lower s)}"
    using distinct_length_filter [OF keywords_distinct, of "\<lambda>kw. str_in kw (lower s)"]
    by (simp add: Int_def conj_commute)
  ultimately show ?thesis
    using False by (simp add: supply_chain_relevance_def sum_list_ones)
qed

lemma newsapi_row_kept:
  "(newsapi_row now coords art \<noteq> None) = (truthy (jget (n_title art))
       \<and> 1 \<le> supply_chain_relevance
               (Some (or_str (jget (n_title art)) '''' @ '' ''
                        @ or_str (jget (n_description art)) (or_str (jget (n_title art)) ''''))))"
  by (simp add: newsapi_row_def Let_def NEWSAPI_MIN_RELEVANCE_def not_less)

lemma newsapi_rows_length:
  "length (newsapi_rows now draw i arts)
     = length (filter (\<lambda>art. newsapi_row now (0, 0) art \<noteq> None) arts)"
proof (induction arts arbitrary: i)
  case Nil
  then show ?case by simp
next
  case (Cons art arts)
  have "(newsapi_row now (draw i) art = None) = (newsapi_row now (0, 0) art = None)"
    using newsapi_row_kept [of now "draw i" art] newsapi_row_kept [of now "(0, 0)" art] by blast
  with Cons show ?case by (cases "newsapi_row now (draw i) art") auto
qed


text \<open>
  Claim C8, as stated, gives the vocabulary 24 terms. The configured list has 26, and a
  text that contains all of them counts 26.
\<close>

theorem relevance_vocabulary_size_counterexample:
  "length NEWSAPI_RELEVANCE_KEYWORDS \<noteq> 24
   \<and> supply_chain_relevance (Some (''Supply chain logistics shipping freight cargo port shortage ''
        @ ''disruption strike factory manufacturing inventory shipment supplier procurement ''
        @ ''warehouse distribution export import container rail trucking delivery outage ''
        @ ''closure backlog'')) = 26"
  by code_simp


text \<open>
  Claim C8, amended. \<^verbatim>\<open>_supply_chain_relevance\<close> counts the distinct keywords of a
  fixed vocabulary of 26 supply-chain and logistics terms that occur, as substrings and
  without regard to case, in the text. The secondary fetcher retains an article exactly
  when it has a non-empty title and the count over "title description" (the title twice
  when there is no description) is at least the minimum relevance, which is 1.
\<close>

theorem relevance_gate:
  "length NEWSAPI_RELEVANCE_KEYWORDS = 26
   \<and> distinct NEWSAPI_RELEVANCE_KEYWORDS
   \<and> supply_chain_relevance None = 0
   \<and> supply_chain_relevance (Some s)
       = int (card {kw \<in> set NEWSAPI_RELEVANCE_KEYWORDS. str_in kw (lower s)})
   \<and> NEWSAPI_MIN_RELEVANCE = 1
   \<and> (newsapi_row now coords art \<noteq> None) =
       (truthy (jget (n_title art))
        \<and> 1 \<le> supply_chain_relevance
                (Some (or_str (jget (n_title art)) '''' @ '' ''
                         @ or_str (jget (n_description art)) (or_str (jget (n_title art)) ''''))))
   \<and> length (newsapi_rows now draw i arts)
       = length (filter (\<lambda>art. truthy (jget (n_title art))
            \<and> 1 \<le> supply_chain_relevance
                    (Some (or_str (jget (n_title art)) '''' @ '' ''
                             @ or_str (jget (n_description art)) (or_str (jget (n_title art)) ''''))))
           arts)"
proof -
  have z: "supply_chain_relevance None = 0"
    by (simp add: supply_chain_relevance_def)
  have m: "NEWSAPI_MIN_RELEVANCE = 1"
    by (simp add: NEWSAPI_MIN_RELEVANCE_def)
  have l: "length (newsapi_rows now draw i arts)
       = length (filter (\<lambda>art. truthy (jget (n_title art))
            \<and> 1 \<le> supply_chain_relevance
                    (Some (or_str (jget (n_title art)) '''' @ '' ''
                             @ or_str (jget (n_description art)) (or_str (jget (n_title art)) ''''))))
           arts)"
    using newsapi_rows_length [of now draw i arts] by (simp only: newsapi_row_kept)
  show ?thesis
    by (intro conjI) (fact keywords_length, fact keywords_distinct, fact z, fact relevance_card,
        fact m, fact newsapi_row_kept, fact l)
qed


theorem relevance_gate_witness:
  "newsapi_row ''2026-01-05 12:00'' (0, 0)
     \<lparr> n_title = Str ''Port strike looms'', n_description = Null, n_source_name = Absent,
       n_url = Absent, n_publishedAt = Absent \<rparr> \<noteq> None
   \<and> newsapi_row ''2026-01-05 12:00'' (0, 0)
     \<lparr> n_title = Str ''Celebrity wedding'', n_description = Str ''Photos inside'', n_source_name = Absent,
       n_url = Absent, n_publishedAt = Absent \<rparr> = None"
proof -
  have rel: "1 \<le> supply_chain_relevance (Some (''Port strike looms'' @ '' '' @ ''Port strike looms''))"
    by code_simp
  have rel0: "\<not> 1 \<le> supply_chain_relevance (Some (''Celebrity wedding'' @ '' '' @ ''Photos inside''))"
    by code_simp
  note g = relevance_gate [THEN conjunct2, THEN conjunct2, THEN conjunct2, THEN conjunct2,
      THEN conjunct2, THEN conjunct1]
  have a: "newsapi_row ''2026-01-05 12:00'' (0, 0)
     \<lparr> n_title = Str ''Port strike looms'', n_description = Null, n_source_name = Absent,
       n_url = Absent, n_publishedAt = Absent \<rparr> \<noteq> None"
    using rel g [of "''2026-01-05 12:00''" "(0, 0)"
      "\<lparr> n_title = Str ''Port strike looms'', n_description = Null,
         n_source_name = Absent, n_url = Absent, n_publishedAt = Absent \<rparr>"]
    by simp
  have b: "newsapi_row ''2026-01-05 12:00'' (0, 0)
     \<lparr> n_title = Str ''Celebrity wedding'', n_description = Str ''Photos inside'', n_source_name = Absent,
       n_url = Absent, n_publishedAt = Absent \<rparr> = None"
    using rel0 g [of "''2026-01-05 12:00''" "(0, 0)"
      "\<lparr> n_title = Str ''Celebrity wedding'', n_description = Str ''Photos inside'',
         n_source_name = Absent, n_url = Absent, n_publishedAt = Absent \<rparr>"]
    by simp
  from a b show ?thesis by simp
qed

subsection \<open>Failures of the fetchers\<close>

















subsection \<open>Timestamps\<close>

lemma canonical_ts_length: "canonical_ts s \<Longrightarrow> length s = 16"
  by (auto simp: canonical_ts_def dest: list_all2_lengthD)

lemma gdelt_ts_length: "length (gdelt_ts s) \<le> 14"
  by (simp add: gdelt_ts_def)

lemma gdelt_ts_not_canonical: "\<not> canonical_ts (gdelt_ts s)"
  using canonical_ts_length [of "gdelt_ts s"] gdelt_ts_length [of s] by auto

lemma gdelt_row_ts:
  "gdelt_row now coords art = Inr e
     \<Longrightarrow> \<exists>s. jget_default (g_seendate art) now = Some s \<and> timestamp e = gdelt_ts s"
  by (auto simp: gdelt_row_def Let_def event_row_def split: option.splits)

lemma gdelt_rows_ts:
  "gdelt_rows now draw i arts = Inr rows \<Longrightarrow> e \<in> set rows \<Longrightarrow> \<exists>s. timestamp e = gdelt_ts s"
proof (induction arts arbitrary: i rows)
  case Nil
  then show ?case by simp
next
  case (Cons art arts)
  from Cons.prems obtain row rest where r: "gdelt_row now (draw i) art = Inr row"
      "gdelt_rows now draw (Suc i) arts = Inr rest" "rows = row # rest"
    by (auto split: sum.splits)
  show ?case
  proof (cases "e = row")
    case True
    with r(1) gdelt_row_ts show ?thesis by blast
  next
    case False
    with r Cons.prems(2) have "e \<in> set rest" by simp
    from Cons.IH [OF r(2) this] show ?thesis .
  qed
qed

lemma fetch_gdelt_ts:
  "e \<in> set (snd (fetch_gdelt_events http_get now draw query n)) \<Longrightarrow> \<exists>s. timestamp e = gdelt_ts s"
  by (auto simp: fetch_gdelt_events_def gdelt_try_def
           split: sum.splits exn.splits response.splits payload.splits option.splits if_splits
           dest: gdelt_rows_ts)

lemma is_digit_not_T: "is_digit c \<Longrightarrow> c \<noteq> CHR ''T''"
  by (auto simp: is_digit_def)

lemma newsapi_pub_iso:
  assumes "is_digit y1" "is_digit y2" "is_digit y3" "is_digit y4" "is_digit mo1" "is_digit mo2"
    "is_digit d1" "is_digit d2" "is_digit h1" "is_digit h2" "is_digit m1" "is_digit m2"
  shows "newsapi_pub now (Str ([y1, y2, y3, y4, CHR ''-'', mo1, mo2, CHR ''-'', d1, d2, CHR ''T'',
                                 h1, h2, CHR '':'', m1, m2] @ rest))
           = [y1, y2, y3, y4, CHR ''-'', mo1, mo2, CHR ''-'', d1, d2, CHR '' '', h1, h2, CHR '':'', m1, m2]"
  using assms by (simp add: newsapi_pub_def Let_def is_digit_not_T)

lemma digit_char_is_digit: "n < 10 \<Longrightarrow> is_digit (digit_char n)"
proof -
  assume "n < 10"
  then have "n \<in> set [0 ..< 10]" by simp
  then have "n \<in> {0, 1, 2, 3, 4, 5, 6, 7, 8, 9}" by (simp add: upt_rec numeral_eq_Suc)
  then show ?thesis by (auto simp: digit_char_def is_digit_def)
qed

lemma show_nat_1: "n < 10 \<Longrightarrow> show_nat n = [digit_char n]"
  by (simp add: show_nat.simps)

lemma show_nat_2: "10 \<le> n \<Longrightarrow> n < 100 \<Longrightarrow> show_nat n = [digit_char (n div 10), digit_char (n mod 10)]"
  by (subst show_nat.simps) (simp add: show_nat_1)

lemma show_nat_3:
  "100 \<le> n \<Longrightarrow> n < 1000
     \<Longrightarrow> show_nat n = [digit_char (n div 10 div 10), digit_char (n div 10 mod 10), digit_char (n mod 10)]"
  by (subst show_nat.simps) (simp add: show_nat_2)

lemma show_nat_4:
  "1000 \<le> n \<Longrightarrow> n < 10000
     \<Longrightarrow> show_nat n = [digit_char (n div 10 div 10 div 10), digit_char (n div 10 div 10 mod 10),
                        digit_char (n div 10 mod 10), digit_char (n mod 10)]"
  by (subst show_nat.simps) (simp add: show_nat_3)

lemma pad2_digits: "n < 100 \<Longrightarrow> pad2 n = [digit_char (n div 10), digit_char (n mod 10)]"
  by (cases "n < 10") (simp_all add: pad2_def show_nat_1 show_nat_2 digit_char_def)

lemma rss_published_time:
  assumes "truthy (jget (e_published en)) \<or> truthy (jget (e_updated en))"
    and "e_published_parsed en = Time t"
    and "1000 \<le> tm_year t" "tm_year t < 10000" "tm_mon t < 100" "tm_mday t < 100"
        "tm_hour t < 100" "tm_min t < 100"
  shows "canonical_ts (rss_published now en)"
proof -
  have p: "or_str (or_opt (jget (e_published en)) (jget (e_updated en))) '''' \<noteq> []"
    using assms(1) by (cases "jget (e_published en)"; cases "jget (e_updated en)") auto
  have d: "is_digit (digit_char (k mod 10))" for k
    by (rule digit_char_is_digit) simp
  have d2: "k < 100 \<Longrightarrow> is_digit (digit_char (k div 10))" for k
    by (rule digit_char_is_digit) simp
  have d4: "is_digit (digit_char (tm_year t div 10 div 10 div 10))"
    using assms(4) by (intro digit_char_is_digit) simp
  show ?thesis
    using p assms(2-) d d2 d4
    by (simp add: rss_published_def Let_def show_nat_4 pad2_digits canonical_ts_def)
qed

text \<open>The secondary and the tertiary fetcher do produce the canonical format on
  well-formed input (\<open>newsapi_pub_iso\<close>, \<open>rss_published_time\<close>), as does the clock
  format they fall back to; no row of the primary fetcher ever has it.\<close>

lemma fetch_gdelt_never_canonical:
  "e \<in> set (snd (fetch_gdelt_events http_get now draw query n))
     \<Longrightarrow> length (timestamp e) \<le> 14 \<and> \<not> canonical_ts (timestamp e)"
  using fetch_gdelt_ts [of e http_get now draw query n] gdelt_ts_length gdelt_ts_not_canonical
  by auto

text \<open>
  Claim C9. Every event record produced by a fetcher is to carry a timestamp in the
  canonical format \<^verbatim>\<open>YYYY-MM-DD HH:MM\<close>; the primary fetcher takes the first 8
  characters of the source's compact date+time string as the date and the next 4 as
  hour:minute. The primary fetcher does not deliver the format: it joins the two slices
  without reformatting the date and without skipping the \<^verbatim>\<open>T\<close> of the source's
  string. On \<^verbatim>\<open>20240115T123000Z\<close> the row's timestamp is \<^verbatim>\<open>20240115 T1:23\<close>, and
  on the digits-only \<^verbatim>\<open>20240115123000\<close> it is \<^verbatim>\<open>20240115 12:30\<close>; neither is in
  the canonical format, which \<^verbatim>\<open>2024-01-15 12:30\<close> is.
\<close>

theorem primary_timestamp_not_canonical:
  "map timestamp (snd (fetch_gdelt_events
       (\<lambda>url. Reply 200 (Articles (Some [\<lparr> g_title = Str ''Port strike looms'', g_snippet = Absent,
                                            g_domain = Absent, g_url = Absent,
                                            g_seendate = Str ''20240115T123000Z'' \<rparr>])))
       ''20260105'' (\<lambda>i. (0, 0)) GDELT_KEYWORDS MAX_GDELT_RECORDS))
     = [''20240115 T1:23'']
   \<and> \<not> canonical_ts ''20240115 T1:23''
   \<and> map timestamp (snd (fetch_gdelt_events
       (\<lambda>url. Reply 200 (Articles (Some [\<lparr> g_title = Str ''Port strike looms'', g_snippet = Absent,
                                            g_domain = Absent, g_url = Absent,
                                            g_seendate = Str ''20240115123000'' \<rparr>])))
       ''20260105'' (\<lambda>i. (0, 0)) GDELT_KEYWORDS MAX_GDELT_RECORDS))
     = [''20240115 12:30'']
   \<and> \<not> canonical_ts ''20240115 12:30''
   \<and> canonical_ts ''2024-01-15 12:30''"
  by (simp add: fetch_gdelt_events_def gdelt_try_def gdelt_row_def event_row_def gdelt_ts_def
        canonical_ts_def is_digit_def Let_def)

subsection \<open>The result cache\<close>

text \<open>
  Claim C2. For the two cached fetchers, on the cache as the specification describes it:
  a call that executed the fetch at time \<open>t0\<close> is followed, for the same arguments and
  within 600 seconds, by a call that returns the identical result without executing the
  fetch, whatever the network would answer then; a call more than 600 seconds later
  executes the fetch again and replaces the entry; and after the refresh action both
  caches are empty, whatever the age of their entries, so the next call executes the
  fetch.
\<close>

theorem cache_ttl_and_refresh:
  "(\<forall>df cs'. cached_fetch_gdelt_events net1 now1 draw1 t0 q n cs = (df, True, cs')
        \<and> t0 \<le> t1 \<and> t1 < t0 + 600
      \<longrightarrow> cached_fetch_gdelt_events net2 now2 draw2 t1 q n cs' = (df, False, cs'))
   \<and> (\<forall>df cs'. cached_fetch_gdelt_events net1 now1 draw1 t0 q n cs = (df, True, cs')
        \<and> t0 + 600 < t1
      \<longrightarrow> cached_fetch_gdelt_events net2 now2 draw2 t1 q n cs'
            = (fetch_gdelt_events net2 now2 draw2 q n, True,
               cs'\<lparr> gdelt_cache := (gdelt_cache cs')((q, n) \<mapsto>
                   \<lparr> ce_value = fetch_gdelt_events net2 now2 draw2 q n, ce_created = t1 \<rparr>) \<rparr>))
   \<and> (\<forall>df ns'. cached_fetch_newsapi_events net3 qp now3 draw3 t0 key q' ns = (df, True, ns')
        \<and> t0 \<le> t1 \<and> t1 < t0 + 600
      \<longrightarrow> cached_fetch_newsapi_events net4 qp' now4 draw4 t1 key q' ns' = (df, False, ns'))
   \<and> (\<forall>df ns'. cached_fetch_newsapi_events net3 qp now3 draw3 t0 key q' ns = (df, True, ns')
        \<and> t0 + 600 < t1
      \<longrightarrow> cached_fetch_newsapi_events net4 qp' now4 draw4 t1 key q' ns'
            = (fetch_newsapi_events net4 qp' now4 draw4 key q', True,
               ns'\<lparr> newsapi_cache := (newsapi_cache ns')((key, q') \<mapsto>
                   \<lparr> ce_value = fetch_newsapi_events net4 qp' now4 draw4 key q', ce_created = t1 \<rparr>) \<rparr>))
   \<and> (\<forall>k. gdelt_cache (refresh_data mode rs) k = None)
   \<and> (\<forall>k. newsapi_cache (refresh_data mode rs) k = None)
   \<and> fst (snd (cached_fetch_gdelt_events net2 now2 draw2 t1 q n (refresh_data mode rs)))
   \<and> fst (snd (cached_fetch_newsapi_events net4 qp' now4 draw4 t1 key q' (refresh_data mode rs)))"
proof -
  have a: "\<forall>df cs'. cached_fetch_gdelt_events net1 now1 draw1 t0 q n cs = (df, True, cs')
        \<and> t0 \<le> t1 \<and> t1 < t0 + 600
      \<longrightarrow> cached_fetch_gdelt_events net2 now2 draw2 t1 q n cs' = (df, False, cs')"
    by (auto simp: cached_fetch_gdelt_events_def cached_call_def FETCH_TTL_def Let_def
          split: option.splits if_splits)
  have b: "\<forall>df cs'. cached_fetch_gdelt_events net1 now1 draw1 t0 q n cs = (df, True, cs')
        \<and> t0 + 600 < t1
      \<longrightarrow> cached_fetch_gdelt_events net2 now2 draw2 t1 q n cs'
            = (fetch_gdelt_events net2 now2 draw2 q n, True,
               cs'\<lparr> gdelt_cache := (gdelt_cache cs')((q, n) \<mapsto>
                   \<lparr> ce_value = fetch_gdelt_events net2 now2 draw2 q n, ce_created = t1 \<rparr>) \<rparr>)"
    by (auto simp: cached_fetch_gdelt_events_def cached_call_def FETCH_TTL_def Let_def
          split: option.splits if_splits)
  have c: "\<forall>df ns'. cached_fetch_newsapi_events net3 qp now3 draw3 t0 key q' ns = (df, True, ns')
        \<and> t0 \<le> t1 \<and> t1 < t0 + 600
      \<longrightarrow> cached_fetch_newsapi_events net4 qp' now4 draw4 t1 key q' ns' = (df, False, ns')"
    by (auto simp: cached_fetch_newsapi_events_def cached_call_def FETCH_TTL_def Let_def
          split: option.splits if_splits)
  have d: "\<forall>df ns'. cached_fetch_newsapi_events net3 qp now3 draw3 t0 key q' ns = (df, True, ns')
        \<and> t0 + 600 < t1
      \<longrightarrow> cached_fetch_newsapi_events net4 qp' now4 draw4 t1 key q' ns'
            = (fetch_newsapi_events net4 qp' now4 draw4 key q', True,
               ns'\<lparr> newsapi_cache := (newsapi_cache ns')((key, q') \<mapsto>
                   \<lparr> ce_value = fetch_newsapi_events net4 qp' now4 draw4 key q', ce_created = t1 \<rparr>) \<rparr>)"
    by (auto simp: cached_fetch_newsapi_events_def cached_call_def FETCH_TTL_def Let_def
          split: option.splits if_splits)
  have e: "\<forall>k. gdelt_cache (refresh_data mode rs) k = None"
    by (simp add: refresh_data_def Let_def cache_clear_def)
  have f: "\<forall>k. newsapi_cache (refresh_data mode rs) k = None"
    by (simp add: refresh_data_def Let_def cache_clear_def)
  have g: "fst (snd (cached_fetch_gdelt_events net2 now2 draw2 t1 q n (refresh_data mode rs)))"
    using e by (simp add: cached_fetch_gdelt_events_def cached_call_def Let_def)
  have h: "fst (snd (cached_fetch_newsapi_events net4 qp' now4 draw4 t1 key q' (refresh_data mode rs)))"
    using f by (simp add: cached_fetch_newsapi_events_def cached_call_def Let_def)
  show ?thesis
    by (intro conjI) (fact a, fact b, fact c, fact d, fact e, fact f, fact g, fact h)
qed

theorem cache_ttl_and_refresh_witness:
  "fst (cached_fetch_gdelt_events (\<lambda>url. Reply 200 (Articles None)) ''20260105'' (\<lambda>i. (0, 0)) 1200
          GDELT_KEYWORDS MAX_GDELT_RECORDS
          (snd (snd (cached_fetch_gdelt_events (\<lambda>url. Failed ''timed out'') ''20260105'' (\<lambda>i. (0, 0))
                       1000 GDELT_KEYWORDS MAX_GDELT_RECORDS
                       \<lparr> gdelt_cache = Map.empty, newsapi_cache = Map.empty, mock_cache = Map.empty \<rparr>))))
     = ([GdeltUnreachable (Exception ''timed out'')], [])
   \<and> \<not> fst (snd (cached_fetch_gdelt_events (\<lambda>url. Reply 200 (Articles None)) ''20260105'' (\<lambda>i. (0, 0)) 1200
          GDELT_KEYWORDS MAX_GDELT_RECORDS
          (snd (snd (cached_fetch_gdelt_events (\<lambda>url. Failed ''timed out'') ''20260105'' (\<lambda>i. (0, 0))
                       1000 GDELT_KEYWORDS MAX_GDELT_RECORDS
                       \<lparr> gdelt_cache = Map.empty, newsapi_cache = Map.empty, mock_cache = Map.empty \<rparr>)))))"
proof -
  let ?cs0 = "\<lparr> gdelt_cache = Map.empty, newsapi_cache = Map.empty, mock_cache = Map.empty \<rparr>"
  let ?first = "cached_fetch_gdelt_events (\<lambda>url. Failed ''timed out'') ''20260105'' (\<lambda>i. (0, 0))
                       1000 GDELT_KEYWORDS MAX_GDELT_RECORDS ?cs0"
  have df: "fst ?first = ([GdeltUnreachable (Exception ''timed out'')], [])"
    by (simp add: cached_fetch_gdelt_events_def cached_call_def fetch_gdelt_events_def gdelt_try_def)
  have ex: "fst (snd ?first) = True"
    by (simp add: cached_fetch_gdelt_events_def cached_call_def)
  have first: "?first = (([GdeltUnreachable (Exception ''timed out'')], []), True, snd (snd ?first))"
    by (rule prod_eqI) (simp_all add: df ex prod_eq_iff)
  have win: "(1000::nat) \<le> 1200 \<and> (1200::nat) < 1000 + 600" by simp
  note hit = cache_ttl_and_refresh
    [of "\<lambda>url. Failed ''timed out''" "''20260105''" "\<lambda>i. (0, 0)" 1000 GDELT_KEYWORDS
        MAX_GDELT_RECORDS ?cs0 1200 "\<lambda>url. Reply 200 (Articles None)" "''20260105''" "\<lambda>i. (0, 0)",
     THEN conjunct1, rule_format,
     of "([GdeltUnreachable (Exception ''timed out'')], [])" "snd (snd ?first)"]
  have "cached_fetch_gdelt_events (\<lambda>url. Reply 200 (Articles None)) ''20260105'' (\<lambda>i. (0, 0)) 1200
          GDELT_KEYWORDS MAX_GDELT_RECORDS (snd (snd ?first))
        = (([GdeltUnreachable (Exception ''timed out'')], []), False, snd (snd ?first))"
    by (rule hit) (rule conjI [OF first win])
  then show ?thesis by simp
qed

end
